theory Spec2Isabelle
  imports Complex_Main
begin

section \<open>Exceptions and list indexing\<close>

text \<open>
  The Python exceptions that the modelled code can meet. A function that can raise
  returns \<open>py_error + 'a\<close>; \<open>Inl\<close> is the raise.
\<close>

datatype py_error =
    IndexError
  | ValueError
  | RuntimeError
  | AttributeError
  | UnicodeDecodeError
  | StructError
  | OSError

text \<open>
  \<open>xs[i]\<close> on a list of length \<open>n\<close>: a negative index counts from the end, anything
  outside \<open>[-n, n)\<close> raises IndexError. The result is the position read.
\<close>

definition py_index :: "nat \<Rightarrow> int \<Rightarrow> py_error + nat" where
  "py_index n i =
     (if 0 \<le> i \<and> i < int n then Inr (nat i)
      else if i < 0 \<and> - int n \<le> i then Inr (nat (int n + i))
      else Inl IndexError)"

section \<open>backend/tor\_handler.py: TorInstance\<close>

text \<open>
  The fields of \<open>TorInstance\<close> that the pool and the identity cache use. The process
  handle, the paths, the password and the requests session do not enter any function
  modelled here. \<open>_ip_cache\<close> is \<open>None\<close> or a string; times are seconds, as reals
  (\<open>time.time()\<close> is a float: rounding is not modelled).
\<close>

record tor_instance =
  socks_port :: int
  control_port :: int
  ip_cache :: "string option"
  ip_cache_time :: real
  cache_ttl :: real

definition TorInstance :: "int \<Rightarrow> int \<Rightarrow> tor_instance" where
  "TorInstance socks control =
     \<lparr>socks_port = socks, control_port = control,
      ip_cache = None, ip_cache_time = 0, cache_ttl = 60\<rparr>"

section \<open>backend/tor\_handler.py: TorPoolManager\<close>

text \<open>
  The instances are objects shared between the pool, the handlers and the background
  threads. The list \<open>instances\<close> is the store; a reference to an instance is its
  position in the list.
\<close>

type_synonym ref = nat

record pool =
  count :: int
  base_socks_port :: int
  base_control_port :: int
  instances :: "tor_instance list"
  current_index :: int

definition TorPoolManager :: "int \<Rightarrow> int \<Rightarrow> int \<Rightarrow> pool" where
  "TorPoolManager c socks control =
     \<lparr>count = c, base_socks_port = socks, base_control_port = control,
      instances = [], current_index = 0\<rparr>"

subsection \<open>start\_pool\<close>

text \<open>
  What \<open>instance.start()\<close> did, as the future's \<open>result()\<close> sees it: it returned a
  boolean, or it raised.
\<close>

datatype start_outcome = StartReturns bool | StartRaises

text \<open>The loop \<open>for i in range(self.count)\<close>: instance \<open>i\<close> is built on its two ports.\<close>

definition launched_instances :: "pool \<Rightarrow> tor_instance list" where
  "launched_instances p =
     map (\<lambda>i. TorInstance (base_socks_port p + int i * 2) (base_control_port p + int i * 2))
       [0..<nat (count p)]"

text \<open>
  The loop over \<open>zip(launched_instances, futures)\<close>: an instance is appended when
  its \<open>start()\<close> returned a true value; a raise is swallowed.
\<close>

fun enroll :: "(nat \<Rightarrow> start_outcome) \<Rightarrow> nat \<Rightarrow> tor_instance list \<Rightarrow> tor_instance list" where
  "enroll starts i [] = []"
| "enroll starts i (inst # rest) =
     (if starts i = StartReturns True then inst # enroll starts (Suc i) rest
      else enroll starts (Suc i) rest)"

text \<open>
  The wait \<open>while (time.time() - start_time) < max_wait\<close> with \<open>max_wait = 30\<close>:
  \<open>rdy t c\<close> is what \<open>is_circuit_ready()\<close> of the instance on control port \<open>c\<close>
  answers at time \<open>t\<close> (it swallows its own exceptions), and every round that is not
  ready sleeps half a second. The result is the time at which the loop is left.
\<close>

function wait_all_ready ::
  "(real \<Rightarrow> int \<Rightarrow> bool) \<Rightarrow> tor_instance list \<Rightarrow> real \<Rightarrow> real \<Rightarrow> real" where
  "wait_all_ready rdy insts start_time t =
     (if t - start_time < 30 then
        (if list_all (\<lambda>inst. rdy t (control_port inst)) insts then t
         else wait_all_ready rdy insts start_time (t + 1 / 2))
      else t)"
  by pat_completeness auto
termination
proof (relation "measure (\<lambda>(rdy, insts, start_time, t). nat \<lceil>2 * (start_time + 30 - t)\<rceil>)")
  show "wf (measure (\<lambda>(rdy, insts, start_time, t). nat \<lceil>2 * (start_time + 30 - t)\<rceil>))"
    by simp
next
  fix rdy :: "real \<Rightarrow> int \<Rightarrow> bool" and insts :: "tor_instance list"
    and start_time t :: real
  assume lt: "t - start_time < 30"
  have eq: "2 * (start_time + 30 - (t + 1 / 2)) = 2 * (start_time + 30 - t) - 1"
    by simp
  have pos: "0 < \<lceil>2 * (start_time + 30 - t)\<rceil>"
    using lt by (simp add: ceiling_less_iff)
  have "\<lceil>2 * (start_time + 30 - (t + 1 / 2))\<rceil> = \<lceil>2 * (start_time + 30 - t)\<rceil> - 1"
    unfolding eq by (rule ceiling_diff_one)
  with pos show "((rdy, insts, start_time, t + 1 / 2), (rdy, insts, start_time, t))
      \<in> measure (\<lambda>(rdy, insts, start_time, t). nat \<lceil>2 * (start_time + 30 - t)\<rceil>)"
    by simp
qed

text \<open>
  \<open>start_pool\<close>. \<open>ThreadPoolExecutor(max_workers=min(self.count, 15))\<close> raises
  ValueError when \<open>max_workers\<close> is not positive, before any instance is built. An
  exception leaves the object as it is at that point, so the pool is returned beside
  the raise. \<open>t0\<close> is the clock when the wait begins; the time at which the call ends
  is returned as well.
\<close>

definition start_pool ::
  "(nat \<Rightarrow> start_outcome) \<Rightarrow> (real \<Rightarrow> int \<Rightarrow> bool) \<Rightarrow> real \<Rightarrow> pool
     \<Rightarrow> pool \<times> real \<times> py_error option" where
  "start_pool starts rdy t0 p =
     (if min (count p) 15 \<le> 0 then (p, t0, Some ValueError)
      else
        let p' = p\<lparr>instances := instances p @ enroll starts 0 (launched_instances p)\<rparr>;
            t1 = wait_all_ready rdy (instances p') t0 t0
        in (p', t1, if instances p' = [] then Some RuntimeError else None))"

subsection \<open>stop\_pool, get\_proxy\_port, get\_current\_instance\<close>

text \<open>
  \<open>stop_pool\<close> stops every instance and clears the list; \<open>current_index\<close> is not
  assigned.
\<close>

definition stop_pool :: "pool \<Rightarrow> pool" where
  "stop_pool p = p\<lparr>instances := []\<rparr>"

definition get_current_instance :: "pool \<Rightarrow> py_error + ref option" where
  "get_current_instance p =
     (if instances p \<noteq> [] then
        (case py_index (length (instances p)) (current_index p) of
           Inl e \<Rightarrow> Inl e
         | Inr r \<Rightarrow> Inr (Some r))
      else Inr None)"

definition get_proxy_port :: "pool \<Rightarrow> py_error + int" where
  "get_proxy_port p =
     (if instances p \<noteq> [] then
        (case py_index (length (instances p)) (current_index p) of
           Inl e \<Rightarrow> Inl e
         | Inr r \<Rightarrow> Inr (socks_port (instances p ! r)))
      else Inr 0)"

subsection \<open>switch\_to\_next\_instance\<close>

text \<open>
  The two background threads, each with the instance its closure holds. They are
  started as daemon threads and never joined: the call returns the list of threads it
  started, and nothing they do enters its result.
\<close>

datatype task = RenewSingleIp ref | PrewarmOldInstance ref

definition switch_to_next_instance :: "pool \<Rightarrow> pool \<times> (py_error + ref option) \<times> task list" where
  "switch_to_next_instance p =
     (if instances p = [] then (p, Inr None, [])
      else if length (instances p) = 1 then
        (case py_index (length (instances p)) 0 of
           Inl e \<Rightarrow> (p, Inl e, [])
         | Inr current_instance \<Rightarrow> (p, Inr (Some current_instance), [RenewSingleIp current_instance]))
      else
        let p' = p\<lparr>current_index := (current_index p + 1) mod int (length (instances p))\<rparr>
        in (case py_index (length (instances p')) (current_index p') of
              Inl e \<Rightarrow> (p', Inl e, [])
            | Inr new_instance \<Rightarrow>
                let old_index = (current_index p' - 1) mod int (length (instances p'))
                in (case py_index (length (instances p')) old_index of
                      Inl e \<Rightarrow> (p', Inl e, [])
                    | Inr old_instance \<Rightarrow>
                        (p', Inr (Some new_instance), [PrewarmOldInstance old_instance]))))"

text \<open>\<open>k\<close> calls of \<open>switch_to_next_instance\<close> in a row, with what each returned.\<close>

fun rotations :: "nat \<Rightarrow> pool \<Rightarrow> (py_error + ref option) list \<times> pool" where
  "rotations 0 p = ([], p)"
| "rotations (Suc k) p =
     (case switch_to_next_instance p of
        (p', r, ts) \<Rightarrow> (case rotations k p' of (rs, p'') \<Rightarrow> (r # rs, p'')))"

text \<open>The operations that assign the pool's list or index, and a run of them.\<close>

datatype pool_op =
    StartPool "nat \<Rightarrow> start_outcome" "real \<Rightarrow> int \<Rightarrow> bool" real
  | Rotate
  | StopPool

fun apply_op :: "pool \<Rightarrow> pool_op \<Rightarrow> pool" where
  "apply_op p (StartPool starts rdy t0) = fst (start_pool starts rdy t0 p)"
| "apply_op p Rotate = fst (switch_to_next_instance p)"
| "apply_op p StopPool = stop_pool p"

definition run_ops :: "pool \<Rightarrow> pool_op list \<Rightarrow> pool" where
  "run_ops p ops = foldl apply_op p ops"

text \<open>The invariant of the pool as the specification words it.\<close>

definition pool_inv :: "pool \<Rightarrow> bool" where
  "pool_inv p =
     (instances p = [] \<or> (0 \<le> current_index p \<and> current_index p < int (length (instances p))))"

section \<open>Strings\<close>

text \<open>
  Byte strings are \<open>string\<close>: a \<open>char\<close> is one byte. A Python \<open>str\<close> is held as the
  bytes of its UTF-8 encoding, so that \<open>encode()\<close> is the identity, \<open>==\<close>, \<open>in\<close> and
  \<open>split\<close> on ASCII separators act on the bytes, and \<open>len\<close> counts the bytes that do
  not continue a character. The two line ends written in the source's literals:
\<close>

definition CRLF :: string where
  "CRLF = [CHR 0x0D, CHR 0x0A]"

definition LF :: string where
  "LF = [CHR 0x0A]"

text \<open>
  \<open>s.split(sep)\<close> for a non-empty separator: the pieces between the occurrences of
  \<open>sep\<close>, found from the left and not overlapping; always at least one piece.
\<close>

fun split_from :: "'a list \<Rightarrow> 'a list \<Rightarrow> 'a list \<Rightarrow> 'a list list" where
  "split_from sep acc [] = [rev acc]"
| "split_from sep acc (x # xs) =
     (if sep \<noteq> [] \<and> take (length sep) (x # xs) = sep
      then rev acc # split_from sep [] (drop (length sep) (x # xs))
      else split_from sep (x # acc) xs)"

definition split_on :: "'a list \<Rightarrow> 'a list \<Rightarrow> 'a list list" where
  "split_on sep s = split_from sep [] s"

text \<open>
\<open>sub in s\<close> on strings.
\<close>

fun contains :: "'a list \<Rightarrow> 'a list \<Rightarrow> bool" where
  "contains sub [] = (sub = [])"
| "contains sub (x # xs) = (take (length sub) (x # xs) = sub \<or> contains sub xs)"

text \<open>
  Whitespace for \<open>strip()\<close>. \<open>bytes.strip\<close> removes the six ASCII whitespace bytes.
  \<open>str.strip\<close> removes every character for which \<open>isspace()\<close> holds: those six,
  \<open>0x1C .. 0x1F\<close> and, as UTF-8, the characters U+0085 and U+00A0 (two bytes) and
  U+1680, U+2000 .. U+200A, U+2028, U+2029, U+202F, U+205F and U+3000 (three bytes).
\<close>

definition bytes_space :: "char \<Rightarrow> bool" where
  "bytes_space c = (c \<in> set [CHR 0x20, CHR 0x09, CHR 0x0A, CHR 0x0D, CHR 0x0B, CHR 0x0C])"

definition str_space1 :: "char \<Rightarrow> bool" where
  "str_space1 c = (bytes_space c \<or> c \<in> set [CHR 0x1C, CHR 0x1D, CHR 0x1E, CHR 0x1F])"

definition str_space2 :: "char \<Rightarrow> char \<Rightarrow> bool" where
  "str_space2 a b = (a = CHR 0xC2 \<and> b \<in> set [CHR 0x85, CHR 0xA0])"

definition str_space3 :: "char \<Rightarrow> char \<Rightarrow> char \<Rightarrow> bool" where
  "str_space3 a b c =
     ((a = CHR 0xE1 \<and> b = CHR 0x9A \<and> c = CHR 0x80)
      \<or> (a = CHR 0xE2 \<and> b = CHR 0x80
          \<and> c \<in> set [CHR 0x80, CHR 0x81, CHR 0x82, CHR 0x83, CHR 0x84, CHR 0x85, CHR 0x86,
                       CHR 0x87, CHR 0x88, CHR 0x89, CHR 0x8A, CHR 0xA8, CHR 0xA9, CHR 0xAF])
      \<or> (a = CHR 0xE2 \<and> b = CHR 0x81 \<and> c = CHR 0x9F)
      \<or> (a = CHR 0xE3 \<and> b = CHR 0x80 \<and> c = CHR 0x80))"

text \<open>
  The whitespace taken from the left, one character of one, two or three bytes at a
  time. \<open>str_strip\<close> strips the left and then, on the reversed string and with the
  bytes of a character read backwards, the right.
\<close>

fun lstrip ::
  "(char \<Rightarrow> bool) \<Rightarrow> (char \<Rightarrow> char \<Rightarrow> bool) \<Rightarrow> (char \<Rightarrow> char \<Rightarrow> char \<Rightarrow> bool)
     \<Rightarrow> string \<Rightarrow> string" where
  "lstrip s1 s2 s3 [] = []"
| "lstrip s1 s2 s3 [a] = (if s1 a then [] else [a])"
| "lstrip s1 s2 s3 [a, b] =
     (if s1 a then lstrip s1 s2 s3 [b] else if s2 a b then [] else [a, b])"
| "lstrip s1 s2 s3 (a # b # c # rest) =
     (if s1 a then lstrip s1 s2 s3 (b # c # rest)
      else if s2 a b then lstrip s1 s2 s3 (c # rest)
      else if s3 a b c then lstrip s1 s2 s3 rest
      else a # b # c # rest)"

definition str_strip :: "string \<Rightarrow> string" where
  "str_strip s =
     rev (lstrip str_space1 (\<lambda>a b. str_space2 b a) (\<lambda>a b c. str_space3 c b a)
            (rev (lstrip str_space1 str_space2 str_space3 s)))"

definition bytes_strip :: "string \<Rightarrow> string" where
  "bytes_strip s = rev (dropWhile bytes_space (rev (dropWhile bytes_space s)))"

text \<open>
An integer inside an f-string: its decimal digits.
\<close>

fun str_nat :: "nat \<Rightarrow> string" where
  "str_nat n = (if n < 10 then [char_of (48 + n)] else str_nat (n div 10) @ [char_of (48 + n mod 10)])"

definition str_int :: "int \<Rightarrow> string" where
  "str_int i = (if i < 0 then CHR ''-'' # str_nat (nat (- i)) else str_nat (nat i))"

text \<open>
\<open>len\<close> of a \<open>str\<close>: its code points, the bytes outside \<open>0x80 .. 0xBF\<close>.
\<close>

definition py_len :: "string \<Rightarrow> nat" where
  "py_len s = length (filter (\<lambda>c. \<not> (0x80 \<le> (of_char c :: nat) \<and> (of_char c :: nat) < 0xC0)) s)"

section \<open>backend/tor\_handler.py: get\_ip\<close>

text \<open>
  \<open>get_ip\<close> asks an address-echo service through the instance's SOCKS port. What the
  service answers is the environment's: a request raises (timeout, refused, proxy
  error) or gives a response with a status code and a body, and \<open>response.json()\<close>
  gives a JSON value or raises (\<open>None\<close> here). An object holds the items of the parsed
  dict.
\<close>

datatype json =
    JNull
  | JBool bool
  | JNumber real
  | JString string
  | JArray "json list"
  | JObject "(string \<times> json) list"

datatype request_outcome = RequestRaises | Response int "json option"

text \<open>
  The world a lookup runs in: the clock \<open>time.time()\<close> reads and the answers the
  next requests will get, each with the time it takes. A request with no answer left
  raises.
\<close>

record world =
  now :: real
  replies :: "(real \<times> request_outcome) list"

definition http_get :: "world \<Rightarrow> request_outcome \<times> world" where
  "http_get w =
     (case replies w of
        [] \<Rightarrow> (RequestRaises, w)
      | (d, r) # rest \<Rightarrow> (r, w\<lparr>now := now w + d, replies := rest\<rparr>))"

definition sleep :: "real \<Rightarrow> world \<Rightarrow> world" where
  "sleep d w = w\<lparr>now := now w + d\<rparr>"

text \<open>
  The chain of tests on a response: status 200, the JSON is a dict, \<open>data.get('ip', '')\<close>
  is a non-empty string. \<open>Some ip\<close> is the branch that caches.
\<close>

fun response_ip :: "request_outcome \<Rightarrow> string option" where
  "response_ip RequestRaises = None"
| "response_ip (Response status_code body) =
     (if status_code = 200 then
        (case body of
           None \<Rightarrow> None
         | Some (JObject items) \<Rightarrow>
             (case map_of items ''ip'' of
                Some (JString ip) \<Rightarrow> if ip \<noteq> [] then Some ip else None
              | _ \<Rightarrow> None)
         | Some _ \<Rightarrow> None)
      else None)"

text \<open>
  The loop \<open>for attempt in range(max_retries)\<close>, with the attempts still to make as
  the counter: \<open>attempt < max_retries - 1\<close> is \<open>0 < left\<close> after this one. Every
  exception of an attempt is swallowed. The session branch and the plain
  \<open>requests.get\<close> branch make the same request. The sentinel after the last attempt
  is the string of three dots.
\<close>

fun get_ip_attempts ::
  "nat \<Rightarrow> real \<Rightarrow> tor_instance \<Rightarrow> world \<Rightarrow> string \<times> tor_instance \<times> world" where
  "get_ip_attempts 0 retry_delay inst w = (''...'', inst, w)"
| "get_ip_attempts (Suc left) retry_delay inst w =
     (case http_get w of
        (r, w1) \<Rightarrow>
          (case response_ip r of
             Some ip \<Rightarrow>
               (str_strip ip,
                inst\<lparr>ip_cache := Some (str_strip ip), ip_cache_time := now w1\<rparr>, w1)
           | None \<Rightarrow>
               get_ip_attempts left retry_delay inst
                 (if retry_delay > 0 \<and> 0 < left then sleep retry_delay w1 else w1)))"

text \<open>
\<open>if self._ip_cache\<close>: the cache is neither \<open>None\<close> nor the empty string.
\<close>

definition cache_truthy :: "tor_instance \<Rightarrow> bool" where
  "cache_truthy inst = (case ip_cache inst of None \<Rightarrow> False | Some c \<Rightarrow> c \<noteq> [])"

text \<open>
  \<open>get_ip(max_retries, retry_delay)\<close>: the value returned, the instance and the world
  after the call. No path raises.
\<close>

definition get_ip :: "tor_instance \<Rightarrow> world \<Rightarrow> int \<Rightarrow> real \<Rightarrow> string \<times> tor_instance \<times> world" where
  "get_ip inst w max_retries retry_delay =
     (let current_time = now w in
      if cache_truthy inst \<and> current_time - ip_cache_time inst < cache_ttl inst
      then (the (ip_cache inst), inst, w)
      else get_ip_attempts (nat max_retries) retry_delay inst w)"

section \<open>backend/proxy\_server.py\<close>

text \<open>
\<open>detect_protocol\<close>, with the tuple of the source (\<open>0x50\<close> twice).
\<close>

definition detect_protocol :: "int \<Rightarrow> string" where
  "detect_protocol first_byte =
     (if first_byte = 0x04 then ''SOCKS4''
      else if first_byte = 0x05 then ''SOCKS5''
      else if first_byte \<in> set [0x47, 0x48, 0x50, 0x43, 0x4F, 0x50] then ''HTTP''
      else ''UNKNOWN'')"

text \<open>
  \<open>socket.recv\<close> raises (timeout, reset) or returns bytes, none when the peer has
  closed.
\<close>

datatype recv_result = RecvRaises | RecvBytes string

text \<open>
The socket \<open>connect_to_tor\<close> opens; \<open>None\<close> is the failure it returns.
\<close>

datatype socket = TorSocket

text \<open>
  What a handler does to its sockets and threads, in order. \<open>RelayData\<close> is the call
  of \<open>relay_data\<close>.
\<close>

datatype event =
    TorConnect int
  | TorSendall string
  | TorRecv nat
  | TorShutdown
  | TorClose
  | ClientSendall string
  | ClientShutdown
  | ClientClose
  | RelayData
  | StartThread task

text \<open>
  What the SOCKS port does during one dial: whether \<open>connect\<close> succeeds, whether the
  \<open>k\<close>-th \<open>sendall\<close> on the socket succeeds, and what the two \<open>recv\<close> calls find.
\<close>

record tor_backend =
  connect_ok :: bool
  sendall_ok :: "nat \<Rightarrow> bool"
  method_reply :: recv_result
  connect_reply :: recv_result

text \<open>
  \<open>struct.pack('>B', n)\<close> and \<open>struct.pack('>H', n)\<close>: \<open>struct.error\<close> outside the
  range of the format.
\<close>

definition pack_B :: "int \<Rightarrow> py_error + string" where
  "pack_B n = (if 0 \<le> n \<and> n \<le> 255 then Inr [char_of n] else Inl StructError)"

definition pack_H :: "int \<Rightarrow> py_error + string" where
  "pack_H n =
     (if 0 \<le> n \<and> n \<le> 65535 then Inr [char_of (n div 256), char_of (n mod 256)]
      else Inl StructError)"

text \<open>
The CONNECT request with a domain-name address, as the source concatenates it.
\<close>

definition connect_request :: "string \<Rightarrow> int \<Rightarrow> py_error + string" where
  "connect_request host_bytes target_port =
     (case pack_B (int (length host_bytes)) of
        Inl e \<Rightarrow> Inl e
      | Inr host_len \<Rightarrow>
          (case pack_H target_port of
             Inl e \<Rightarrow> Inl e
           | Inr port_bytes \<Rightarrow>
               Inr ([CHR 0x05, CHR 0x01] @ [CHR 0x00] @ [CHR 0x03] @ host_len @ host_bytes
                    @ port_bytes)))"

text \<open>
  \<open>not resp or resp[1] != 0x00\<close>: true on an empty reply, IndexError on a reply of one
  byte, otherwise whether the second byte is non-zero.
\<close>

definition reply_refused :: "string \<Rightarrow> py_error + bool" where
  "reply_refused resp =
     (if resp = [] then Inr True
      else (case py_index (length resp) 1 of
              Inl e \<Rightarrow> Inl e
            | Inr i \<Rightarrow> Inr (resp ! i \<noteq> CHR 0x00)))"

text \<open>
  The body of the \<open>try\<close> in \<open>connect_to_tor\<close>, in two parts: the request after a
  method negotiation that went through (\<open>tor_request\<close>), and the connection with the
  negotiation (\<open>tor_dial\<close>). \<open>TorClose\<close> is recorded exactly where the source calls
  \<open>s.close()\<close>. \<open>Inl\<close> is an exception inside the \<open>try\<close>.
\<close>

definition tor_request ::
  "tor_backend \<Rightarrow> string \<Rightarrow> int \<Rightarrow> event list \<Rightarrow> (py_error + socket option) \<times> event list" where
  "tor_request be target_host target_port evs =
     (case connect_request target_host target_port of
        Inl e \<Rightarrow> (Inl e, evs)
      | Inr req \<Rightarrow>
          if \<not> sendall_ok be 1 then (Inl OSError, evs @ [TorSendall req])
          else
            (case connect_reply be of
               RecvRaises \<Rightarrow> (Inl OSError, evs @ [TorSendall req, TorRecv 10])
             | RecvBytes bs \<Rightarrow>
                 (case reply_refused (take 10 bs) of
                    Inl e \<Rightarrow> (Inl e, evs @ [TorSendall req, TorRecv 10])
                  | Inr True \<Rightarrow> (Inr None, evs @ [TorSendall req, TorRecv 10, TorClose])
                  | Inr False \<Rightarrow> (Inr (Some TorSocket), evs @ [TorSendall req, TorRecv 10]))))"

definition tor_dial ::
  "tor_backend \<Rightarrow> int \<Rightarrow> string \<Rightarrow> int \<Rightarrow> (py_error + socket option) \<times> event list" where
  "tor_dial be tor_port target_host target_port =
     (if \<not> connect_ok be then (Inl OSError, [TorConnect tor_port])
      else if \<not> sendall_ok be 0
        then (Inl OSError, [TorConnect tor_port, TorSendall [CHR 0x05, CHR 0x01, CHR 0x00]])
      else
        (let evs = [TorConnect tor_port, TorSendall [CHR 0x05, CHR 0x01, CHR 0x00], TorRecv 2] in
         case method_reply be of
           RecvRaises \<Rightarrow> (Inl OSError, evs)
         | RecvBytes bs \<Rightarrow>
             (case reply_refused (take 2 bs) of
                Inl e \<Rightarrow> (Inl e, evs)
              | Inr True \<Rightarrow> (Inr None, evs @ [TorClose])
              | Inr False \<Rightarrow> tor_request be target_host target_port evs)))"

text \<open>
  \<open>connect_to_tor\<close>: \<open>get_proxy_port()\<close> is called outside the \<open>try\<close>, so what it
  raises leaves the function; \<open>except Exception: return None\<close> turns every exception
  of the body into the failure value, with the events as they stand.
\<close>

definition connect_to_tor ::
  "tor_backend \<Rightarrow> pool \<Rightarrow> string \<Rightarrow> int \<Rightarrow> (py_error + socket option) \<times> event list" where
  "connect_to_tor be p target_host target_port =
     (case get_proxy_port p of
        Inl e \<Rightarrow> (Inl e, [])
      | Inr tor_port \<Rightarrow>
          if tor_port = 0 then (Inr None, [])
          else
            (case tor_dial be tor_port target_host target_port of
               (Inl e, evs) \<Rightarrow> (Inr None, evs)
             | (Inr s, evs) \<Rightarrow> (Inr s, evs)))"

subsection \<open>handle\_http\<close>

text \<open>
  The library functions the handler calls, as parameters: the two decoders
  (\<open>decode('utf-8', errors='ignore')\<close> and the strict \<open>decode()\<close>, \<open>None\<close> for
  UnicodeDecodeError), \<open>int()\<close> on a string (\<open>None\<close> for ValueError), \<open>urlparse\<close>
  (\<open>None\<close> when it raises, else \<open>hostname\<close> and what reading \<open>port\<close> gives) and
  \<open>str(e)\<close> of an exception.
\<close>

datatype url_port = PortRaises | Port "int option"

record pylib =
  decode_ignore :: "string \<Rightarrow> string"
  decode_strict :: "string \<Rightarrow> string option"
  int_of_str :: "string \<Rightarrow> int option"
  urlparse :: "string \<Rightarrow> (string option \<times> url_port) option"
  str_of_error :: "py_error \<Rightarrow> string"

text \<open>
  The client socket: what the peek \<open>recv(4096, MSG_PEEK)\<close> and the read \<open>recv(65536)\<close>
  return, whether \<open>sendall\<close> on it succeeds, and how each pump thread of a relay on
  it stands when \<open>relay_data\<close> returns: still running after the 30 seconds of its
  \<open>join\<close>, ended with \<open>shutdown\<close> raising (the \<open>close\<close> after it is skipped), or ended
  with its destination shut down and closed.
\<close>

datatype pump_end = StillRunning | ShutdownRaised | Closed

record client =
  peeked :: recv_result
  received :: recv_result
  client_send_ok :: bool
  pump_to_remote :: pump_end
  pump_to_client :: pump_end

text \<open>
  The outcome of a handler: the exception that left it, if any, the events, and the
  pool and the world afterwards.
\<close>

record result =
  raised :: "py_error option"
  events :: "event list"
  pool_after :: pool
  world_after :: world

definition returns :: "event list \<Rightarrow> pool \<Rightarrow> world \<Rightarrow> result" where
  "returns evs p w = \<lparr>raised = None, events = evs, pool_after = p, world_after = w\<rparr>"

definition raises :: "py_error \<Rightarrow> event list \<Rightarrow> pool \<Rightarrow> world \<Rightarrow> result" where
  "raises e evs p w = \<lparr>raised = Some e, events = evs, pool_after = p, world_after = w\<rparr>"

definition client_sendall :: "client \<Rightarrow> string \<Rightarrow> event list \<Rightarrow> pool \<Rightarrow> world \<Rightarrow> result" where
  "client_sendall cl bs evs p w =
     (if client_send_ok cl then returns (evs @ [ClientSendall bs]) p w
      else raises OSError (evs @ [ClientSendall bs]) p w)"

text \<open>
  \<open>relay_data(client_socket, remote_socket)\<close> starts \<open>forward(client, remote)\<close> and
  \<open>forward(remote, client)\<close> and joins each for 30 seconds. A pump that ends runs its
  \<open>finally\<close>: \<open>destination.shutdown\<close>, then \<open>destination.close()\<close>; so the pump towards
  the client closes the client socket inside \<open>relay_data\<close>. The events of the two
  threads are listed thread by thread; their order in time is not determined.
\<close>

fun pump_events :: "pump_end \<Rightarrow> event \<Rightarrow> event \<Rightarrow> event list" where
  "pump_events StillRunning shut close = []"
| "pump_events ShutdownRaised shut close = [shut]"
| "pump_events Closed shut close = [shut, close]"

definition relay_data :: "client \<Rightarrow> event list" where
  "relay_data cl =
     RelayData # pump_events (pump_to_remote cl) TorShutdown TorClose
       @ pump_events (pump_to_client cl) ClientShutdown ClientClose"

text \<open>
The response of the rotate path; \<open>elapsed_time\<close> is the constant 0.1.
\<close>

definition rotate_response :: "nat \<Rightarrow> string \<Rightarrow> int \<Rightarrow> string \<Rightarrow> string" where
  "rotate_response pool_size old_ip port new_ip =
     (let response_body =
        (if pool_size = 1 then
           ''IP Renewal Started'' @ LF @ ''Old IP: '' @ old_ip @ LF @ ''Port: '' @ str_int port
             @ LF @ ''New IP: '' @ new_ip @ LF @ ''Time: 0.1s''
         else
           ''IP Rotation Started'' @ LF @ ''Old IP: '' @ old_ip @ LF @ ''New Port: ''
             @ str_int port @ LF @ ''New IP: '' @ new_ip @ LF @ ''Time: 0.1s'')
      in ''HTTP/1.1 200 OK'' @ CRLF @ ''Content-Type: text/plain'' @ CRLF @ ''Content-Length: ''
           @ str_nat (py_len response_body) @ CRLF @ CRLF @ response_body)"

text \<open>
  The \<open>GET /rotate\<close> path: the body of its \<open>try\<close> (\<open>rotate_try\<close>), and the handler that
  answers 500 with \<open>str(e)\<close> when the body raised (\<open>handle_rotate\<close>); that \<open>sendall\<close>
  is outside any \<open>try\<close>. \<open>get_ip\<close> writes the cache of the instance it is called on.
\<close>

definition rotate_try :: "client \<Rightarrow> pool \<Rightarrow> world \<Rightarrow> result" where
  "rotate_try cl p w =
     (case get_current_instance p of
        Inl e \<Rightarrow> raises e [] p w
      | Inr None \<Rightarrow>
          client_sendall cl (''HTTP/1.1 500 Internal Server Error'' @ CRLF @ CRLF @ ''No active instance'')
            [] p w
      | Inr (Some instance) \<Rightarrow>
          (case get_ip (instances p ! instance) w 1 0 of
             (ip1, inst1, w1) \<Rightarrow>
               let p1 = p\<lparr>instances := (instances p)[instance := inst1]\<rparr>;
                   old_ip = (if ip1 = ''...''
                             then ''Haz'' @ [CHR 0xC4, CHR 0xB1] @ ''rlan'' @ [CHR 0xC4, CHR 0xB1] @ ''yor''
                             else ip1);
                   pool_size = length (instances p1)
               in (case switch_to_next_instance p1 of
                     (p2, Inl e, ts) \<Rightarrow> raises e (map StartThread ts) p2 w1
                   | (p2, Inr None, ts) \<Rightarrow> raises AttributeError (map StartThread ts) p2 w1
                   | (p2, Inr (Some new_instance), ts) \<Rightarrow>
                       (case get_ip (instances p2 ! new_instance) w1 1 0 of
                          (ip2, inst2, w2) \<Rightarrow>
                            let p3 = p2\<lparr>instances := (instances p2)[new_instance := inst2]\<rparr>;
                                new_ip = (if ip2 = ''...'' then ''Connecting...'' else ip2)
                            in client_sendall cl
                                 (rotate_response pool_size old_ip
                                    (socks_port (instances p3 ! new_instance)) new_ip)
                                 (map StartThread ts) p3 w2))))"

definition handle_rotate :: "pylib \<Rightarrow> client \<Rightarrow> pool \<Rightarrow> world \<Rightarrow> result" where
  "handle_rotate lib cl p w =
     (let r = rotate_try cl p w in
      case raised r of
        None \<Rightarrow> r
      | Some e \<Rightarrow>
          client_sendall cl
            (''HTTP/1.1 500 Internal Server Error'' @ CRLF @ CRLF @ ''Error: '' @ str_of_error lib e)
            (events r) (pool_after r) (world_after r))"

text \<open>
  \<open>host, port_str = url.split(':'); port = int(port_str)\<close> under a bare \<open>except\<close>:
  exactly two pieces, the second one an integer for \<open>int()\<close>.
\<close>

definition connect_target :: "pylib \<Rightarrow> string \<Rightarrow> (string \<times> int) option" where
  "connect_target lib url =
     (case split_on '':'' url of
        [host, port_str] \<Rightarrow>
          (case int_of_str lib port_str of
             None \<Rightarrow> None
           | Some port \<Rightarrow> Some (host, port))
      | _ \<Rightarrow> None)"

text \<open>
The branch \<open>method == 'CONNECT'\<close>.
\<close>

definition handle_connect ::
  "pylib \<Rightarrow> client \<Rightarrow> tor_backend \<Rightarrow> pool \<Rightarrow> world \<Rightarrow> string \<Rightarrow> result" where
  "handle_connect lib cl be p w url =
     (case connect_target lib url of
        None \<Rightarrow> returns [] p w
      | Some (host, port) \<Rightarrow>
          (case connect_to_tor be p host port of
             (Inl e, evs) \<Rightarrow> raises e evs p w
           | (Inr (Some tor_sock), evs) \<Rightarrow>
               (let r = client_sendall cl (''HTTP/1.1 200 Connection Established'' @ CRLF @ CRLF)
                          evs p w
                in if raised r = None then r\<lparr>events := events r @ relay_data cl\<rparr> else r)
           | (Inr None, evs) \<Rightarrow>
               client_sendall cl (''HTTP/1.1 502 Bad Gateway'' @ CRLF @ CRLF) evs p w))"

text \<open>
\<open>bytes.lower()\<close>: the ASCII letters only.
\<close>

definition bytes_lower :: "string \<Rightarrow> string" where
  "bytes_lower s =
     map (\<lambda>c. if 0x41 \<le> (of_char c :: nat) \<and> (of_char c :: nat) \<le> 0x5A
               then char_of ((of_char c :: nat) + 32) else c) s"

text \<open>
  The other methods. \<open>host\<close> starts as the empty string and \<open>port\<close> as 80; an
  absolute URL sets them under a bare \<open>except\<close> (\<open>u.hostname\<close> may be \<open>None\<close>,
  \<open>u.port or 80\<close>); with no host yet the first \<open>Host:\<close> line sets them, and there a
  second colon or a port that is no integer raises out of the handler.
\<close>

definition url_host_port :: "pylib \<Rightarrow> string \<Rightarrow> string option \<times> int" where
  "url_host_port lib url =
     (if contains ''http://'' url then
        (case urlparse lib url of
           None \<Rightarrow> (Some [], 80)
         | Some (hostname, PortRaises) \<Rightarrow> (hostname, 80)
         | Some (hostname, Port None) \<Rightarrow> (hostname, 80)
         | Some (hostname, Port (Some n)) \<Rightarrow> (hostname, if n = 0 then 80 else n))
      else (Some [], 80))"

fun host_header ::
  "pylib \<Rightarrow> string option \<Rightarrow> int \<Rightarrow> string list \<Rightarrow> py_error + (string option \<times> int)" where
  "host_header lib host port [] = Inr (host, port)"
| "host_header lib host port (line # rest) =
     (if take 5 (bytes_lower line) = ''host:'' then
        (case decode_strict lib
                (bytes_strip (drop 1 (dropWhile (\<lambda>c. c \<noteq> CHR '':'') line))) of
           None \<Rightarrow> Inl UnicodeDecodeError
         | Some h \<Rightarrow>
             if CHR '':'' \<in> set h then
               (case split_on '':'' h of
                  [h', port_str] \<Rightarrow>
                    (case int_of_str lib port_str of
                       None \<Rightarrow> Inl ValueError
                     | Some n \<Rightarrow> Inr (Some h', n))
                | _ \<Rightarrow> Inl ValueError)
             else Inr (Some h, port))
      else host_header lib host port rest)"

text \<open>
\<open>not host\<close>: \<open>None\<close> or the empty string.
\<close>

definition falsy :: "string option \<Rightarrow> bool" where
  "falsy host = (host = None \<or> host = Some [])"

definition handle_forward ::
  "pylib \<Rightarrow> client \<Rightarrow> tor_backend \<Rightarrow> pool \<Rightarrow> world \<Rightarrow> string \<Rightarrow> string \<Rightarrow> result" where
  "handle_forward lib cl be p w data url =
     (case url_host_port lib url of
        (host0, port0) \<Rightarrow>
          (case (if falsy host0 then host_header lib host0 port0 (split_on CRLF data)
                 else Inr (host0, port0)) of
             Inl e \<Rightarrow> raises e [] p w
           | Inr (host, port) \<Rightarrow>
               if falsy host then returns [] p w
               else
                 (case connect_to_tor be p (the host) port of
                    (Inl e, evs) \<Rightarrow> raises e evs p w
                  | (Inr (Some tor_sock), evs) \<Rightarrow>
                      if sendall_ok be 2 then returns (evs @ TorSendall data # relay_data cl) p w
                      else raises OSError (evs @ [TorSendall data]) p w
                  | (Inr None, evs) \<Rightarrow>
                      client_sendall cl (''HTTP/1.1 502 Bad Gateway'' @ CRLF @ CRLF) evs p w)))"

text \<open>
  \<open>handle_http\<close>: the first line is tested for the substring \<open>GET /rotate\<close> before it
  is split into method and target.
\<close>

definition handle_http ::
  "pylib \<Rightarrow> client \<Rightarrow> tor_backend \<Rightarrow> pool \<Rightarrow> world \<Rightarrow> string \<Rightarrow> result" where
  "handle_http lib cl be p w data =
     (let first_line = decode_ignore lib (hd (split_on CRLF data)) in
      if contains ''GET /rotate'' first_line then handle_rotate lib cl p w
      else
        (let parts = split_on '' '' first_line in
         if length parts < 2 then returns [] p w
         else
           (let method = parts ! 0; url = parts ! 1 in
            if method = ''CONNECT'' then handle_connect lib cl be p w url
            else handle_forward lib cl be p w data url)))"

subsection \<open>handle\<close>

text \<open>
  \<open>handle\<close>: the body of the \<open>try\<close> (\<open>handle_try\<close>), then \<open>except Exception: pass\<close> and
  \<open>finally: self.request.close()\<close>.
\<close>

definition handle_try :: "pylib \<Rightarrow> client \<Rightarrow> tor_backend \<Rightarrow> pool \<Rightarrow> world \<Rightarrow> result" where
  "handle_try lib cl be p w =
     (case peeked cl of
        RecvRaises \<Rightarrow> raises OSError [] p w
      | RecvBytes bs \<Rightarrow>
          (let header = take 4096 bs in
           if header = [] then returns [] p w
           else
             (let protocol = detect_protocol (of_char (header ! 0)) in
              if protocol = ''HTTP'' then
                (case received cl of
                   RecvRaises \<Rightarrow> raises OSError [] p w
                 | RecvBytes data \<Rightarrow> handle_http lib cl be p w (take 65536 data))
              else if protocol = ''SOCKS5'' then returns [] p w
              else returns [] p w)))"

definition handle :: "pylib \<Rightarrow> client \<Rightarrow> tor_backend \<Rightarrow> pool \<Rightarrow> world \<Rightarrow> result" where
  "handle lib cl be p w =
     (let r = handle_try lib cl be p w
      in r\<lparr>raised := None, events := events r @ [ClientClose]\<rparr>)"

section \<open>Predicates and examples used in the statements\<close>

text \<open>
Every port of the instances that \<open>start_pool\<close> builds: the SOCKS ports, then the control ports.
\<close>

definition all_ports :: "pool \<Rightarrow> int list" where
  "all_ports p = map socks_port (launched_instances p) @ map control_port (launched_instances p)"

text \<open>
  A \<open>start_pool\<close> fits the pool it is applied to when it leaves the pool empty or
  with more instances than \<open>current_index\<close>; the other operations always fit. A run
  fits when each of its operations fits the pool it meets.
\<close>

fun start_fits :: "pool \<Rightarrow> pool_op \<Rightarrow> bool" where
  "start_fits p (StartPool starts rdy t0) =
     (let n = length (instances p)
              + length (filter (\<lambda>i. starts i = StartReturns True) [0..<nat (count p)])
      in n = 0 \<or> current_index p < int n)"
| "start_fits p Rotate = True"
| "start_fits p StopPool = True"

fun starts_fit :: "pool \<Rightarrow> pool_op list \<Rightarrow> bool" where
  "starts_fit p [] = True"
| "starts_fit p (op # ops) = (start_fits p op \<and> starts_fit (apply_op p op) ops)"

text \<open>
The byte strings that a trace writes to the client, in order.
\<close>

fun client_writes :: "event list \<Rightarrow> string list" where
  "client_writes [] = []"
| "client_writes (ClientSendall bs # evs) = bs # client_writes evs"
| "client_writes (e # evs) = client_writes evs"

text \<open>
The two status lines of the CONNECT branch.
\<close>

definition established :: string where
  "established = ''HTTP/1.1 200 Connection Established'' @ CRLF @ CRLF"

definition bad_gateway :: string where
  "bad_gateway = ''HTTP/1.1 502 Bad Gateway'' @ CRLF @ CRLF"

text \<open>
  The library parameters on ASCII input, for the examples: both decoders are the
  identity, \<open>int()\<close> reads a string of decimal digits.
\<close>

definition ascii_int :: "string \<Rightarrow> int option" where
  "ascii_int s =
     (if s \<noteq> [] \<and> list_all (\<lambda>c. 48 \<le> (of_char c :: nat) \<and> (of_char c :: nat) \<le> 57) s
      then Some (foldl (\<lambda>a c. 10 * a + (of_char c - 48)) 0 s) else None)"

definition ascii_lib :: pylib where
  "ascii_lib =
     \<lparr>decode_ignore = (\<lambda>s. s), decode_strict = Some, int_of_str = ascii_int,
      urlparse = (\<lambda>u. None), str_of_error = (\<lambda>e. ''error'')\<rparr>"

text \<open>
  For the examples: a SOCKS port that accepts the negotiation and the request, and a
  client whose peek and read give the same bytes and whose relay pumps both end by
  closing.
\<close>

definition ready_backend :: tor_backend where
  "ready_backend =
     \<lparr>connect_ok = True, sendall_ok = (\<lambda>k. True),
      method_reply = RecvBytes [CHR 0x05, CHR 0x00],
      connect_reply = RecvBytes [CHR 0x05, CHR 0x00, CHR 0x00, CHR 0x01, CHR 0x00, CHR 0x00,
                                 CHR 0x00, CHR 0x00, CHR 0x00, CHR 0x00]\<rparr>"

definition client_sending :: "string \<Rightarrow> bool \<Rightarrow> client" where
  "client_sending data ok =
     \<lparr>peeked = RecvBytes data, received = RecvBytes data, client_send_ok = ok,
      pump_to_remote = Closed, pump_to_client = Closed\<rparr>"

section \<open>Rotation\<close>

lemma py_index_in_range: "0 \<le> i \<Longrightarrow> i < int n \<Longrightarrow> py_index n i = Inr (nat i)"
  by (simp add: py_index_def)

lemma switch_multi:
  assumes "2 \<le> length (instances p)"
  shows "switch_to_next_instance p =
     (p\<lparr>current_index := (current_index p + 1) mod int (length (instances p))\<rparr>,
      Inr (Some (nat ((current_index p + 1) mod int (length (instances p))))),
      [PrewarmOldInstance (nat (current_index p mod int (length (instances p))))])"
proof -
  let ?n = "int (length (instances p))"
  have n: "0 < ?n" using assms by (cases "instances p") simp_all
  have a: "py_index (length (instances p)) ((current_index p + 1) mod ?n)
      = Inr (nat ((current_index p + 1) mod ?n))"
    using n by (intro py_index_in_range) simp_all
  have old: "((current_index p + 1) mod ?n - 1) mod ?n = current_index p mod ?n"
    by (simp add: mod_diff_left_eq)
  have b: "py_index (length (instances p)) (current_index p mod ?n)
      = Inr (nat (current_index p mod ?n))"
    using n by (intro py_index_in_range) simp_all
  from assms have ne: "instances p \<noteq> []" "length (instances p) \<noteq> 1"
    by (cases "instances p", simp_all)
  show ?thesis
    using ne by (simp add: switch_to_next_instance_def Let_def a old b)
qed

lemma rotations_refs:
  "2 \<le> length (instances p) \<Longrightarrow>
   fst (rotations k p) =
     map (\<lambda>j. Inr (Some (nat ((current_index p + 1 + int j) mod int (length (instances p))))))
       [0..<k]"
proof (induction k arbitrary: p)
  case 0
  show ?case by simp
next
  case (Suc k)
  let ?n = "int (length (instances p))"
  let ?p' = "p\<lparr>current_index := (current_index p + 1) mod ?n\<rparr>"
  have len: "2 \<le> length (instances ?p')" using Suc.prems by simp
  have step: "((current_index p + 1) mod ?n + 1 + int j) mod ?n
      = (current_index p + 1 + int (Suc j)) mod ?n" for j
  proof -
    have "((current_index p + 1) mod ?n + (1 + int j)) mod ?n
        = (current_index p + 1 + (1 + int j)) mod ?n"
      by (rule mod_add_left_eq)
    then show ?thesis by (simp add: add.assoc)
  qed
  have "fst (rotations (Suc k) p) =
      Inr (Some (nat ((current_index p + 1) mod ?n))) # fst (rotations k ?p')"
    by (simp add: switch_multi [OF Suc.prems] split: prod.splits)
  also have "fst (rotations k ?p') =
      map (\<lambda>j. Inr (Some (nat ((current_index p + 1 + int (Suc j)) mod ?n)))) [0..<k]"
    using Suc.IH [OF len] by (simp add: step)
  finally show ?case
    by (simp add: upt_conv_Cons map_Suc_upt [symmetric] del: upt_Suc)
qed

lemma circular_order:
  assumes "0 < N"
  shows "map (\<lambda>j. nat ((a + int j) mod int N)) [0..<N] = rotate (nat (a mod int N)) [0..<N]"
proof (rule nth_equalityI)
  show "length (map (\<lambda>j. nat ((a + int j) mod int N)) [0..<N])
      = length (rotate (nat (a mod int N)) [0..<N])" by simp
next
  fix i assume "i < length (map (\<lambda>j. nat ((a + int j) mod int N)) [0..<N])"
  then have i: "i < N" by simp
  have "int ((nat (a mod int N) + i) mod N) = (a mod int N + int i) mod int N"
    using assms by (simp add: zmod_int)
  also have "\<dots> = (a + int i) mod int N"
    by (simp add: mod_add_left_eq)
  finally have "(nat (a mod int N) + i) mod N = nat ((a + int i) mod int N)"
    by linarith
  moreover have "(nat (a mod int N) + i) mod N < N"
    using assms by simp
  ultimately show "map (\<lambda>j. nat ((a + int j) mod int N)) [0..<N] ! i
      = rotate (nat (a mod int N)) [0..<N] ! i"
    using i assms by (simp add: nth_rotate)
qed

lemma switch_single:
  "length (instances p) = 1 \<Longrightarrow>
   switch_to_next_instance p = (p, Inr (Some 0), [RenewSingleIp 0])"
  by (auto simp: switch_to_next_instance_def py_index_def)

lemma rotations_single:
  "length (instances p) = 1 \<Longrightarrow> rotations k p = (replicate k (Inr (Some 0)), p)"
  by (induction k) (simp_all add: switch_single)

text \<open>
  C1. In a pool of at least two instances, \<open>switch_to_next_instance\<close> assigns
  \<open>(current_index + 1) mod len(instances)\<close> to \<open>current_index\<close>, leaves the list as
  it is and returns, without raising, the instance at the new index. \<open>N\<close> calls in a
  row on a pool of \<open>N\<close> instances return the positions \<open>0 .. N-1\<close> rotated to start at
  the one after the old index: each position once, in circular order.
\<close>

theorem switch_to_next_instance_round_robin:
  assumes "2 \<le> length (instances p)"
  shows "fst (switch_to_next_instance p) =
           p\<lparr>current_index := (current_index p + 1) mod int (length (instances p))\<rparr>
       \<and> fst (snd (switch_to_next_instance p)) =
           Inr (Some (nat (current_index (fst (switch_to_next_instance p)))))
       \<and> nat (current_index (fst (switch_to_next_instance p))) < length (instances p)
       \<and> fst (rotations (length (instances p)) p) =
           map (\<lambda>r. Inr (Some r))
             (rotate (nat ((current_index p + 1) mod int (length (instances p))))
                [0..<length (instances p)])
       \<and> distinct (fst (rotations (length (instances p)) p))
       \<and> set (fst (rotations (length (instances p)) p)) =
           (\<lambda>r. Inr (Some r)) ` {0..<length (instances p)}"
proof -
  let ?N = "length (instances p)"
  let ?s = "nat ((current_index p + 1) mod int ?N)"
  have N: "0 < ?N" using assms by linarith
  have sw: "switch_to_next_instance p =
     (p\<lparr>current_index := (current_index p + 1) mod int ?N\<rparr>,
      Inr (Some ?s), [PrewarmOldInstance (nat (current_index p mod int ?N))])"
    by (rule switch_multi [OF assms])
  have "0 \<le> (current_index p + 1) mod int ?N" "(current_index p + 1) mod int ?N < int ?N"
    using N by (simp_all only: pos_mod_sign pos_mod_bound of_nat_0_less_iff)
  then have lt: "?s < ?N" by linarith
  have "fst (rotations ?N p) =
      map (\<lambda>r. Inr (Some r)) (map (\<lambda>j. nat ((current_index p + 1 + int j) mod int ?N)) [0..<?N])"
    by (simp add: rotations_refs [OF assms] comp_def)
  then have rs: "fst (rotations ?N p) = map (\<lambda>r. Inr (Some r)) (rotate ?s [0..<?N])"
    by (simp only: circular_order [OF N])
  have d: "distinct (fst (rotations ?N p))"
    unfolding rs by (simp add: distinct_map inj_on_def)
  have st: "set (fst (rotations ?N p)) = (\<lambda>r. Inr (Some r)) ` {0..<?N}"
    unfolding rs by simp
  show ?thesis
    using sw lt rs d st by simp
qed

theorem switch_to_next_instance_round_robin_witness:
  "fst (rotations 3 \<lparr>count = 3, base_socks_port = 9050, base_control_port = 9051,
       instances = [TorInstance 9050 9051, TorInstance 9052 9053, TorInstance 9054 9055],
       current_index = 1\<rparr>) = [Inr (Some 2), Inr (Some 0), Inr (Some 1)]"
  using switch_to_next_instance_round_robin
    [of "\<lparr>count = 3, base_socks_port = 9050, base_control_port = 9051,
       instances = [TorInstance 9050 9051, TorInstance 9052 9053, TorInstance 9054 9055],
       current_index = 1\<rparr>"]
  by (simp add: upt_conv_Cons rotate1_rotate_swap eval_nat_numeral)

text \<open>
  C9. In a pool of exactly one instance, \<open>switch_to_next_instance\<close> returns that
  instance (position 0) without raising and leaves the pool, its index included, as it
  was, however often it is called. The renewal is a thread that the call starts and
  does not wait for: it is returned as started, and the result of the call does not
  depend on anything the thread does.
\<close>

theorem switch_to_next_instance_single:
  assumes "length (instances p) = 1"
  shows "switch_to_next_instance p = (p, Inr (Some 0), [RenewSingleIp 0])
       \<and> rotations k p = (replicate k (Inr (Some 0)), p)"
  using assms by (simp add: switch_single rotations_single)

theorem switch_to_next_instance_single_witness:
  "rotations 2 \<lparr>count = 1, base_socks_port = 9050, base_control_port = 9051,
       instances = [TorInstance 9050 9051], current_index = 0\<rparr>
   = ([Inr (Some 0), Inr (Some 0)],
      \<lparr>count = 1, base_socks_port = 9050, base_control_port = 9051,
       instances = [TorInstance 9050 9051], current_index = 0\<rparr>)"
  using switch_to_next_instance_single
    [of "\<lparr>count = 1, base_socks_port = 9050, base_control_port = 9051,
       instances = [TorInstance 9050 9051], current_index = 0\<rparr>" 2]
  by (simp add: eval_nat_numeral)

section \<open>Pool start\<close>

lemma enroll_map_upt:
  "enroll starts k (map f [k..<n]) = map f (filter (\<lambda>i. starts i = StartReturns True) [k..<n])"
proof (induction "n - k" arbitrary: k)
  case 0
  then show ?case by simp
next
  case (Suc d)
  then have lt: "k < n" and d: "d = n - Suc k" by linarith+
  show ?case
    using Suc.hyps(1) [OF d] lt by (simp add: upt_conv_Cons)
qed

lemma enroll_launched:
  "enroll starts 0 (launched_instances p) =
     map (\<lambda>i. TorInstance (base_socks_port p + int i * 2) (base_control_port p + int i * 2))
       (filter (\<lambda>i. starts i = StartReturns True) [0..<nat (count p)])"
  unfolding launched_instances_def by (rule enroll_map_upt)

lemma start_pool_instances:
  "instances (fst (start_pool starts rdy t0 p)) =
     instances p @ map (\<lambda>i. TorInstance (base_socks_port p + int i * 2) (base_control_port p + int i * 2))
       (filter (\<lambda>i. starts i = StartReturns True) [0..<nat (count p)])"
proof (cases "count p \<le> 0")
  case True
  then show ?thesis by (simp add: start_pool_def)
next
  case False
  then show ?thesis by (simp add: start_pool_def Let_def enroll_launched)
qed

lemma start_pool_raise:
  "(snd (snd (start_pool starts rdy t0 p)) \<noteq> None) =
     (count p \<le> 0 \<or> instances (fst (start_pool starts rdy t0 p)) = [])"
proof (cases "count p \<le> 0")
  case True
  then show ?thesis by (simp add: start_pool_def)
next
  case False
  then have "\<not> min (count p) 15 \<le> 0" by simp
  then show ?thesis using False by (simp add: start_pool_def Let_def)
qed

lemma start_pool_error:
  "snd (snd (start_pool starts rdy t0 p)) =
     (if count p \<le> 0 then Some ValueError
      else if instances (fst (start_pool starts rdy t0 p)) = [] then Some RuntimeError
      else None)"
proof (cases "count p \<le> 0")
  case True
  then show ?thesis by (simp add: start_pool_def)
next
  case False
  then have "\<not> min (count p) 15 \<le> 0" by simp
  then show ?thesis using False by (simp add: start_pool_def Let_def)
qed

lemma start_pool_current_index:
  "current_index (fst (start_pool starts rdy t0 p)) = current_index p"
  by (simp add: start_pool_def Let_def)

text \<open>
  C3, amended. \<open>start_pool\<close> appends to \<open>instances\<close> exactly the instances whose
  \<open>start()\<close> returned \<open>True\<close>, in order. It raises ValueError when \<open>count\<close> is not
  positive (nothing is built then), RuntimeError when the whole list is empty after
  the loop, and nothing else. So on a pool that is empty, or built with a positive
  \<open>count\<close>, it raises exactly when the list is empty afterwards, and on a pool that
  was empty before the call exactly when no \<open>start()\<close> returned \<open>True\<close>. The wait for
  readiness is a total function, so the call always ends.
\<close>

theorem start_pool_enrolls_and_raises:
  "instances (fst (start_pool starts rdy t0 p)) =
     instances p @ map (\<lambda>i. TorInstance (base_socks_port p + int i * 2) (base_control_port p + int i * 2))
       (filter (\<lambda>i. starts i = StartReturns True) [0..<nat (count p)])
   \<and> snd (snd (start_pool starts rdy t0 p)) =
        (if count p \<le> 0 then Some ValueError
         else if instances (fst (start_pool starts rdy t0 p)) = [] then Some RuntimeError
         else None)
   \<and> (instances p = [] \<or> 0 < count p \<longrightarrow>
        (snd (snd (start_pool starts rdy t0 p)) \<noteq> None)
          = (instances (fst (start_pool starts rdy t0 p)) = []))
   \<and> (instances p = [] \<longrightarrow>
        (snd (snd (start_pool starts rdy t0 p)) \<noteq> None)
          = (\<not> (\<exists>i < nat (count p). starts i = StartReturns True)))"
proof (intro conjI impI)
  show "snd (snd (start_pool starts rdy t0 p)) =
        (if count p \<le> 0 then Some ValueError
         else if instances (fst (start_pool starts rdy t0 p)) = [] then Some RuntimeError
         else None)"
    by (rule start_pool_error)
next
  show "instances (fst (start_pool starts rdy t0 p)) =
     instances p @ map (\<lambda>i. TorInstance (base_socks_port p + int i * 2) (base_control_port p + int i * 2))
       (filter (\<lambda>i. starts i = StartReturns True) [0..<nat (count p)])"
    by (rule start_pool_instances)
next
  assume "instances p = [] \<or> 0 < count p"
  then show "(snd (snd (start_pool starts rdy t0 p)) \<noteq> None)
          = (instances (fst (start_pool starts rdy t0 p)) = [])"
    unfolding start_pool_raise by (auto simp: start_pool_instances)
next
  assume e: "instances p = []"
  have "(filter (\<lambda>i. starts i = StartReturns True) [0..<nat (count p)] = [])
      = (\<not> (\<exists>i < nat (count p). starts i = StartReturns True))"
    by (auto simp: filter_empty_conv)
  moreover have "count p \<le> 0 \<Longrightarrow> \<not> (\<exists>i < nat (count p). starts i = StartReturns True)"
    by simp
  ultimately show "(snd (snd (start_pool starts rdy t0 p)) \<noteq> None)
          = (\<not> (\<exists>i < nat (count p). starts i = StartReturns True))"
    unfolding start_pool_raise using e by (auto simp: start_pool_instances)
qed

theorem start_pool_enrolls_and_raises_witness:
  "snd (snd (start_pool (\<lambda>i. StartReturns (i = 1)) (\<lambda>t c. True) 0 (TorPoolManager 3 9050 9051))) = None
   \<and> instances (fst (start_pool (\<lambda>i. StartReturns (i = 1)) (\<lambda>t c. True) 0 (TorPoolManager 3 9050 9051)))
       = [TorInstance 9052 9053]"
  using start_pool_enrolls_and_raises [of "\<lambda>i. StartReturns (i = 1)" "\<lambda>t c. True" 0 "TorPoolManager 3 9050 9051"]
  by (simp add: TorPoolManager_def upt_conv_Cons eval_nat_numeral)

theorem start_pool_enrolls_and_raises_counterexample:
  "fst (start_pool (\<lambda>i. StartReturns True) (\<lambda>t c. True) 0 (TorPoolManager 1 9050 9051))
     = \<lparr>count = 1, base_socks_port = 9050, base_control_port = 9051,
        instances = [TorInstance 9050 9051], current_index = 0\<rparr>
   \<and> start_pool (\<lambda>i. StartReturns False) (\<lambda>t c. True) 0
       \<lparr>count = 1, base_socks_port = 9050, base_control_port = 9051,
        instances = [TorInstance 9050 9051], current_index = 0\<rparr>
     = (\<lparr>count = 1, base_socks_port = 9050, base_control_port = 9051,
         instances = [TorInstance 9050 9051], current_index = 0\<rparr>, 0, None)"
  by (simp add: start_pool_def Let_def launched_instances_def TorPoolManager_def)

section \<open>Ports\<close>

lemma launched_length: "length (launched_instances p) = nat (count p)"
  by (simp add: launched_instances_def)

lemma launched_nth:
  "i < nat (count p) \<Longrightarrow>
   launched_instances p ! i = TorInstance (base_socks_port p + 2 * int i) (base_control_port p + 2 * int i)"
  by (simp add: launched_instances_def mult.commute)

lemma socks_ports: "map socks_port (launched_instances p) = map (\<lambda>i. base_socks_port p + int i * 2) [0..<nat (count p)]"
  by (simp add: launched_instances_def TorInstance_def comp_def)

lemma control_ports: "map control_port (launched_instances p) = map (\<lambda>i. base_control_port p + int i * 2) [0..<nat (count p)]"
  by (simp add: launched_instances_def TorInstance_def comp_def)

lemma distinct_stride: "distinct (map (\<lambda>i. (b::int) + int i * 2) [0..<n])"
  by (simp add: distinct_map inj_on_def)

lemma abs_diff_bound:
  fixes a b m :: int
  shows "a < m \<Longrightarrow> b < m \<Longrightarrow> 0 \<le> a \<Longrightarrow> 0 \<le> b \<Longrightarrow> \<bar>2 * (a - b)\<bar> < 2 * m"
  by (simp add: abs_if)

lemma ports_disjoint_iff:
  "(set (map (\<lambda>i. (bs::int) + int i * 2) [0..<n]) \<inter> set (map (\<lambda>i. bc + int i * 2) [0..<n]) = {})
    = (n = 0 \<or> odd (bc - bs) \<or> 2 * int n \<le> \<bar>bc - bs\<bar>)"
proof
  assume disj: "set (map (\<lambda>i. bs + int i * 2) [0..<n]) \<inter> set (map (\<lambda>i. bc + int i * 2) [0..<n]) = {}"
  show "n = 0 \<or> odd (bc - bs) \<or> 2 * int n \<le> \<bar>bc - bs\<bar>"
  proof (rule ccontr)
    assume "\<not> ?thesis"
    then have n: "0 < n" and ev: "even (bc - bs)" and lt: "\<bar>bc - bs\<bar> < 2 * int n" by auto
    from ev obtain d where d: "bc - bs = 2 * d" by (blast elim: evenE)
    with lt have dn: "\<bar>d\<bar> < int n" by linarith
    define i where "i = (if 0 \<le> d then nat d else 0)"
    define j where "j = (if 0 \<le> d then 0 else nat (- d))"
    have "i < n" "j < n" "bs + int i * 2 = bc + int j * 2"
      using dn d n by (auto simp: i_def j_def)
    then have "bs + int i * 2 \<in> set (map (\<lambda>i. bs + int i * 2) [0..<n])"
      and "bs + int i * 2 \<in> set (map (\<lambda>i. bc + int i * 2) [0..<n])"
      by (simp_all add: image_iff) (metis atLeastLessThan_iff zero_le)+
    then have "bs + int i * 2 \<in> set (map (\<lambda>i. bs + int i * 2) [0..<n]) \<inter> set (map (\<lambda>i. bc + int i * 2) [0..<n])"
      by blast
    with disj show False by blast
  qed
next
  assume h: "n = 0 \<or> odd (bc - bs) \<or> 2 * int n \<le> \<bar>bc - bs\<bar>"
  show "set (map (\<lambda>i. bs + int i * 2) [0..<n]) \<inter> set (map (\<lambda>i. bc + int i * 2) [0..<n]) = {}"
  proof (rule ccontr)
    assume "\<not> ?thesis"
    then obtain i j where ij: "i < n" "j < n" "bs + int i * 2 = bc + int j * 2" by auto
    then have eq: "bc - bs = 2 * (int i - int j)" by simp
    then have "even (bc - bs)" by simp
    moreover have "\<bar>bc - bs\<bar> < 2 * int n"
    proof -
      have "int i < int n" "int j < int n" "0 \<le> int i" "0 \<le> int j"
        using ij(1,2) by simp_all
      then have "\<bar>2 * (int i - int j)\<bar> < 2 * int n" by (rule abs_diff_bound)
      then show ?thesis by (simp only: eq)
    qed
    moreover have "n \<noteq> 0" using ij by simp
    ultimately show False using h by auto
  qed
qed

text \<open>
  C6, amended. Instance \<open>i\<close> of \<open>count\<close> is built on the SOCKS port
  \<open>base_socks_port + 2 i\<close> and the control port \<open>base_control_port + 2 i\<close>. The SOCKS
  ports are pairwise distinct and so are the control ports. All the ports together are
  pairwise distinct exactly when no instance is built, or the two bases differ by an
  odd number (as the defaults 9050 and 9051 do), or they differ by at least
  \<open>2 count\<close>.
\<close>

theorem launched_instances_ports:
  "length (launched_instances p) = nat (count p)
   \<and> (\<forall>i < nat (count p).
         socks_port (launched_instances p ! i) = base_socks_port p + 2 * int i
       \<and> control_port (launched_instances p ! i) = base_control_port p + 2 * int i)
   \<and> distinct (map socks_port (launched_instances p))
   \<and> distinct (map control_port (launched_instances p))
   \<and> distinct (all_ports p) =
       (count p \<le> 0 \<or> odd (base_control_port p - base_socks_port p)
        \<or> 2 * count p \<le> \<bar>base_control_port p - base_socks_port p\<bar>)"
proof -
  have a: "\<forall>i < nat (count p).
         socks_port (launched_instances p ! i) = base_socks_port p + 2 * int i
       \<and> control_port (launched_instances p ! i) = base_control_port p + 2 * int i"
    by (simp add: launched_nth TorInstance_def)
  have b: "distinct (map socks_port (launched_instances p))"
    unfolding socks_ports by (rule distinct_stride)
  have c: "distinct (map control_port (launched_instances p))"
    unfolding control_ports by (rule distinct_stride)
  have "distinct (all_ports p) =
      (set (map socks_port (launched_instances p)) \<inter> set (map control_port (launched_instances p)) = {})"
    unfolding all_ports_def using b c by (simp only: distinct_append) simp
  also have "\<dots> = (nat (count p) = 0 \<or> odd (base_control_port p - base_socks_port p)
        \<or> 2 * int (nat (count p)) \<le> \<bar>base_control_port p - base_socks_port p\<bar>)"
    unfolding socks_ports control_ports by (rule ports_disjoint_iff)
  also have "\<dots> = (count p \<le> 0 \<or> odd (base_control_port p - base_socks_port p)
        \<or> 2 * count p \<le> \<bar>base_control_port p - base_socks_port p\<bar>)"
    by auto
  finally have d: "distinct (all_ports p) =
       (count p \<le> 0 \<or> odd (base_control_port p - base_socks_port p)
        \<or> 2 * count p \<le> \<bar>base_control_port p - base_socks_port p\<bar>)" .
  show ?thesis using a b c d launched_length by blast
qed

theorem launched_instances_ports_witness: "distinct (all_ports (TorPoolManager 3 9050 9051))
  \<and> all_ports (TorPoolManager 3 9050 9051) = [9050, 9052, 9054, 9051, 9053, 9055]"
  using launched_instances_ports [of "TorPoolManager 3 9050 9051"]
  by (simp add: all_ports_def launched_instances_def TorPoolManager_def TorInstance_def upt_conv_Cons eval_nat_numeral)

theorem launched_instances_ports_counterexample: "\<not> distinct (all_ports (TorPoolManager 2 9050 9052))"
  by (simp add: all_ports_def launched_instances_def TorPoolManager_def TorInstance_def upt_conv_Cons eval_nat_numeral)

section \<open>The index invariant\<close>

lemma pool_inv_switch: "pool_inv p \<Longrightarrow> pool_inv (fst (switch_to_next_instance p))"
proof -
  assume inv: "pool_inv p"
  consider "instances p = []" | "length (instances p) = 1" | "2 \<le> length (instances p)"
    by (cases "instances p"; cases "tl (instances p)") auto
  then show ?thesis
  proof cases
    case 1
    then show ?thesis using inv by (simp add: switch_to_next_instance_def)
  next
    case 2
    then show ?thesis using inv by (simp add: switch_single)
  next
    case 3
    then have "0 < int (length (instances p))" by linarith
    then have "0 \<le> (current_index p + 1) mod int (length (instances p))"
      "(current_index p + 1) mod int (length (instances p)) < int (length (instances p))"
      by (simp_all only: pos_mod_sign pos_mod_bound)
    then show ?thesis by (simp add: switch_multi [OF 3] pool_inv_def)
  qed
qed

lemma index_nonneg_switch:
  "0 \<le> current_index p \<Longrightarrow> 0 \<le> current_index (fst (switch_to_next_instance p))"
proof -
  assume nn: "0 \<le> current_index p"
  consider "instances p = []" | "length (instances p) = 1" | "2 \<le> length (instances p)"
    by (cases "instances p"; cases "tl (instances p)") auto
  then show ?thesis
  proof cases
    case 1
    then show ?thesis using nn by (simp add: switch_to_next_instance_def)
  next
    case 2
    then show ?thesis using nn by (simp add: switch_single)
  next
    case 3
    then have "0 < int (length (instances p))" by linarith
    then have "0 \<le> (current_index p + 1) mod int (length (instances p))"
      by (simp only: pos_mod_sign)
    then show ?thesis by (simp add: switch_multi [OF 3])
  qed
qed

lemma pool_inv_stop: "pool_inv (stop_pool p)"
  by (simp add: pool_inv_def stop_pool_def)

lemma pool_inv_start_iff:
  "0 \<le> current_index p \<Longrightarrow>
   pool_inv (fst (start_pool starts rdy t0 p)) = start_fits p (StartPool starts rdy t0)"
  by (simp add: pool_inv_def start_pool_instances start_pool_current_index Let_def)

lemma pool_inv_start:
  assumes "pool_inv p" and "instances p \<noteq> [] \<or> current_index p = 0"
  shows "pool_inv (fst (start_pool starts rdy t0 p))"
proof -
  have nn: "0 \<le> current_index p" using assms by (auto simp: pool_inv_def)
  have "start_fits p (StartPool starts rdy t0)"
    using assms by (auto simp: pool_inv_def Let_def)
  then show ?thesis by (simp only: pool_inv_start_iff [OF nn])
qed

lemma apply_op_step:
  assumes "pool_inv p" and "0 \<le> current_index p"
  shows "pool_inv (apply_op p op) = start_fits p op" and "0 \<le> current_index (apply_op p op)"
proof -
  show "pool_inv (apply_op p op) = start_fits p op"
    using assms by (cases op) (simp_all add: pool_inv_start_iff pool_inv_switch pool_inv_stop del: start_fits.simps(1))
  show "0 \<le> current_index (apply_op p op)"
    using assms by (cases op) (simp_all add: start_pool_current_index index_nonneg_switch stop_pool_def)
qed

lemma run_ops_Cons: "run_ops p (op # ops) = run_ops (apply_op p op) ops"
  by (simp add: run_ops_def)

lemma pool_inv_run_iff:
  "pool_inv p \<Longrightarrow> 0 \<le> current_index p \<Longrightarrow>
   (\<forall>k\<le>length ops. pool_inv (run_ops p (take k ops))) = starts_fit p ops"
proof (induction ops arbitrary: p)
  case Nil
  then show ?case by (simp add: run_ops_def)
next
  case (Cons op ops)
  let ?p' = "apply_op p op"
  have split: "(\<forall>k\<le>length (op # ops). pool_inv (run_ops p (take k (op # ops))))
      = (pool_inv p \<and> (\<forall>k\<le>length ops. pool_inv (run_ops ?p' (take k ops))))"
  proof
    assume a: "\<forall>k\<le>length (op # ops). pool_inv (run_ops p (take k (op # ops)))"
    have "pool_inv (run_ops ?p' (take k ops))" if "k \<le> length ops" for k
      using a [rule_format, of "Suc k"] that by (simp add: run_ops_Cons)
    then show "pool_inv p \<and> (\<forall>k\<le>length ops. pool_inv (run_ops ?p' (take k ops)))"
      using Cons.prems by blast
  next
    assume b: "pool_inv p \<and> (\<forall>k\<le>length ops. pool_inv (run_ops ?p' (take k ops)))"
    show "\<forall>k\<le>length (op # ops). pool_inv (run_ops p (take k (op # ops)))"
    proof (intro allI impI)
      fix k assume k: "k \<le> length (op # ops)"
      show "pool_inv (run_ops p (take k (op # ops)))"
      proof (cases k)
        case 0
        then show ?thesis using b by (simp add: run_ops_def)
      next
        case (Suc j)
        then show ?thesis using b k by (simp add: run_ops_Cons)
      qed
    qed
  qed
  show ?case
  proof (cases "start_fits p op")
    case True
    then have inv': "pool_inv ?p'" using apply_op_step(1) [OF Cons.prems] by simp
    have nn': "0 \<le> current_index ?p'" by (rule apply_op_step(2) [OF Cons.prems])
    show ?thesis
      unfolding split using Cons.IH [OF inv' nn'] True Cons.prems by simp
  next
    case False
    then have "\<not> pool_inv ?p'" using apply_op_step(1) [OF Cons.prems] by simp
    then have "\<not> (\<forall>k\<le>length ops. pool_inv (run_ops ?p' (take k ops)))"
      by (auto intro: exI [of _ 0] simp: run_ops_def)
    then show ?thesis unfolding split using False by simp
  qed
qed

text \<open>
  C2, amended. The rotation keeps the invariant (the list is empty or
  \<open>0 \<le> current_index < len(instances)\<close>), \<open>stop_pool\<close> establishes it, and
  \<open>start_pool\<close> keeps it on a pool that is not empty or whose index is 0. On a pool
  as \<open>TorPoolManager\<close> builds it, the invariant holds after every prefix of a run of
  these operations exactly when every \<open>start_pool\<close> of the run leaves the pool empty
  or with more instances than \<open>current_index\<close>, which \<open>stop_pool\<close> does not reset.
\<close>

theorem pool_inv_iff_starts_fit:
  "(pool_inv p \<longrightarrow> pool_inv (fst (switch_to_next_instance p)))
   \<and> pool_inv (stop_pool p)
   \<and> (pool_inv p \<and> (instances p \<noteq> [] \<or> current_index p = 0) \<longrightarrow>
        pool_inv (fst (start_pool starts rdy t0 p)))
   \<and> (\<forall>k\<le>length ops. pool_inv (run_ops (TorPoolManager c socks control) (take k ops)))
       = starts_fit (TorPoolManager c socks control) ops"
proof -
  have "pool_inv (TorPoolManager c socks control)"
    and "0 \<le> current_index (TorPoolManager c socks control)"
    by (simp_all add: pool_inv_def TorPoolManager_def)
  then have "(\<forall>k\<le>length ops. pool_inv (run_ops (TorPoolManager c socks control) (take k ops)))
       = starts_fit (TorPoolManager c socks control) ops"
    by (rule pool_inv_run_iff)
  then show ?thesis
    using pool_inv_switch [of p] pool_inv_stop [of p] pool_inv_start [of p starts rdy t0]
    by blast
qed

theorem pool_inv_iff_starts_fit_witness:
  "pool_inv (run_ops (TorPoolManager 3 9050 9051)
      [StartPool (\<lambda>i. StartReturns True) (\<lambda>t c. True) 0, Rotate, StopPool,
       StartPool (\<lambda>i. StartReturns True) (\<lambda>t c. True) 0, Rotate])
   \<and> length (instances (run_ops (TorPoolManager 3 9050 9051)
      [StartPool (\<lambda>i. StartReturns True) (\<lambda>t c. True) 0, Rotate, StopPool,
       StartPool (\<lambda>i. StartReturns True) (\<lambda>t c. True) 0, Rotate])) = 3
   \<and> current_index (run_ops (TorPoolManager 3 9050 9051)
      [StartPool (\<lambda>i. StartReturns True) (\<lambda>t c. True) 0, Rotate, StopPool,
       StartPool (\<lambda>i. StartReturns True) (\<lambda>t c. True) 0, Rotate]) = 2"
proof -
  let ?ops = "[StartPool (\<lambda>i. StartReturns True) (\<lambda>t c. True) 0, Rotate, StopPool,
       StartPool (\<lambda>i. StartReturns True) (\<lambda>t c. True) 0, Rotate]"
  have run: "run_ops (TorPoolManager 3 9050 9051) ?ops
      = \<lparr>count = 3, base_socks_port = 9050, base_control_port = 9051,
         instances = [TorInstance 9050 9051, TorInstance 9052 9053, TorInstance 9054 9055],
         current_index = 2\<rparr>"
    by (simp add: run_ops_def start_pool_def Let_def launched_instances_def
      TorPoolManager_def stop_pool_def switch_to_next_instance_def py_index_def
      upt_conv_Cons eval_nat_numeral)
  have fit: "starts_fit (TorPoolManager 3 9050 9051) ?ops"
    by (simp add: start_pool_def Let_def launched_instances_def
      TorPoolManager_def stop_pool_def switch_to_next_instance_def py_index_def
      upt_conv_Cons eval_nat_numeral)
  have "\<forall>k\<le>length ?ops. pool_inv (run_ops (TorPoolManager 3 9050 9051) (take k ?ops))"
    using pool_inv_iff_starts_fit [of _ _ _ _ ?ops 3 9050 9051] fit by blast
  then have "pool_inv (run_ops (TorPoolManager 3 9050 9051) (take (length ?ops) ?ops))"
    by blast
  then have "pool_inv (run_ops (TorPoolManager 3 9050 9051) ?ops)" by simp
  then show ?thesis using run by simp
qed

theorem pool_inv_restart_counterexample:
  "run_ops (TorPoolManager 3 9050 9051)
      [StartPool (\<lambda>i. StartReturns True) (\<lambda>t c. True) 0, Rotate, Rotate, StopPool,
       StartPool (\<lambda>i. StartReturns (i = 0)) (\<lambda>t c. True) 0]
     = \<lparr>count = 3, base_socks_port = 9050, base_control_port = 9051,
        instances = [TorInstance 9050 9051], current_index = 2\<rparr>
   \<and> \<not> pool_inv (run_ops (TorPoolManager 3 9050 9051)
      [StartPool (\<lambda>i. StartReturns True) (\<lambda>t c. True) 0, Rotate, Rotate, StopPool,
       StartPool (\<lambda>i. StartReturns (i = 0)) (\<lambda>t c. True) 0])
   \<and> get_proxy_port (run_ops (TorPoolManager 3 9050 9051)
      [StartPool (\<lambda>i. StartReturns True) (\<lambda>t c. True) 0, Rotate, Rotate, StopPool,
       StartPool (\<lambda>i. StartReturns (i = 0)) (\<lambda>t c. True) 0]) = Inl IndexError"
  by (simp add: run_ops_def pool_inv_def start_pool_def Let_def launched_instances_def
      TorPoolManager_def stop_pool_def switch_to_next_instance_def py_index_def
      get_proxy_port_def upt_conv_Cons eval_nat_numeral)

section \<open>Protocol classification\<close>

text \<open>
  C8. \<open>detect_protocol\<close> answers SOCKS4 exactly for the byte \<open>0x04\<close>, SOCKS5 exactly
  for \<open>0x05\<close>, HTTP exactly for the five bytes \<open>0x47, 0x48, 0x50, 0x43, 0x4F\<close>, which
  are the first bytes of GET, HEAD, POST, CONNECT and OPTIONS, and UNKNOWN for every
  other integer.
\<close>

theorem detect_protocol_classes:
  "(detect_protocol b = ''SOCKS4'') = (b = 0x04)
   \<and> (detect_protocol b = ''SOCKS5'') = (b = 0x05)
   \<and> (detect_protocol b = ''HTTP'') = (b \<in> {0x47, 0x48, 0x50, 0x43, 0x4F})
   \<and> (detect_protocol b = ''HTTP'') =
       (b \<in> (\<lambda>m. of_char (hd m)) ` {''GET'', ''HEAD'', ''POST'', ''CONNECT'', ''OPTIONS''})
   \<and> (detect_protocol b = ''UNKNOWN'') = (b \<notin> {0x04, 0x05, 0x47, 0x48, 0x50, 0x43, 0x4F})"
  by (simp add: detect_protocol_def)

theorem detect_protocol_classes_witness: "detect_protocol 0x43 = ''HTTP'' \<and> detect_protocol 0x44 = ''UNKNOWN''"
  using detect_protocol_classes [of "0x43"] detect_protocol_classes [of "0x44"] by simp

section \<open>The identity cache\<close>

lemma get_ip_attempts_fail:
  "list_all (\<lambda>dr. response_ip (snd dr) = None) (take n (replies w)) \<Longrightarrow>
   fst (get_ip_attempts n d inst w) = ''...'' \<and> fst (snd (get_ip_attempts n d inst w)) = inst"
proof (induction n arbitrary: w)
  case 0
  show ?case by simp
next
  case (Suc n)
  show ?case
  proof (cases "replies w")
    case Nil
    let ?w' = "if 0 < d \<and> 0 < n then sleep d w else w"
    have "replies ?w' = []" using Nil by (simp add: sleep_def)
    then have "list_all (\<lambda>dr. response_ip (snd dr) = None) (take n (replies ?w'))" by simp
    from Suc.IH [OF this] show ?thesis using Nil by (simp add: http_get_def)
  next
    case (Cons x rest)
    obtain dur r where x: "x = (dur, r)" by (cases x)
    let ?w1 = "w\<lparr>now := now w + dur, replies := rest\<rparr>"
    let ?w' = "if 0 < d \<and> 0 < n then sleep d ?w1 else ?w1"
    have none: "response_ip r = None" using Suc.prems Cons x by simp
    have "replies ?w' = rest" by (simp add: sleep_def)
    then have "list_all (\<lambda>dr. response_ip (snd dr) = None) (take n (replies ?w'))"
      using Suc.prems Cons by simp
    from Suc.IH [OF this] show ?thesis using Cons x none by (simp add: http_get_def)
  qed
qed

text \<open>
  C7, amended. When the cache holds a non-empty string and its age is below the TTL,
  \<open>get_ip\<close> returns that string and changes neither the instance nor the world: no
  request is made, and a second call at any time \<open>w'\<close> still below the TTL returns the
  same string. When the cache does not answer and each of the \<open>max_retries\<close> attempts
  fails, it returns the sentinel, which in the code is the string of three dots, and
  the instance is unchanged. The TTL of a new instance is 60 seconds. The function has
  no raising path.
\<close>

theorem get_ip_cache_and_sentinel:
  "(cache_truthy inst \<and> now w - ip_cache_time inst < cache_ttl inst \<longrightarrow>
      get_ip inst w max_retries retry_delay = (the (ip_cache inst), inst, w)
      \<and> (now w' - ip_cache_time inst < cache_ttl inst \<longrightarrow>
           get_ip (fst (snd (get_ip inst w max_retries retry_delay))) w' max_retries' retry_delay'
             = (fst (get_ip inst w max_retries retry_delay), inst, w')))
   \<and> (\<not> (cache_truthy inst \<and> now w - ip_cache_time inst < cache_ttl inst)
        \<and> list_all (\<lambda>dr. response_ip (snd dr) = None) (take (nat max_retries) (replies w)) \<longrightarrow>
      fst (get_ip inst w max_retries retry_delay) = ''...''
      \<and> fst (snd (get_ip inst w max_retries retry_delay)) = inst)
   \<and> cache_ttl (TorInstance socks control) = 60"
proof (intro conjI impI)
  assume h: "cache_truthy inst \<and> now w - ip_cache_time inst < cache_ttl inst"
  then show a: "get_ip inst w max_retries retry_delay = (the (ip_cache inst), inst, w)"
    by (simp add: get_ip_def)
  assume "now w' - ip_cache_time inst < cache_ttl inst"
  then show "get_ip (fst (snd (get_ip inst w max_retries retry_delay))) w' max_retries' retry_delay'
             = (fst (get_ip inst w max_retries retry_delay), inst, w')"
    using h unfolding a by (simp add: get_ip_def)
next
  assume h: "\<not> (cache_truthy inst \<and> now w - ip_cache_time inst < cache_ttl inst)
        \<and> list_all (\<lambda>dr. response_ip (snd dr) = None) (take (nat max_retries) (replies w))"
  then have g: "get_ip inst w max_retries retry_delay
      = get_ip_attempts (nat max_retries) retry_delay inst w"
    by (auto simp: get_ip_def)
  from h show "fst (get_ip inst w max_retries retry_delay) = ''...''"
    unfolding g using get_ip_attempts_fail by blast
  from h show "fst (snd (get_ip inst w max_retries retry_delay)) = inst"
    unfolding g using get_ip_attempts_fail by blast
next
  show "cache_ttl (TorInstance socks control) = 60" by (simp add: TorInstance_def)
qed

theorem get_ip_cache_and_sentinel_witness:
  "get_ip ((TorInstance 9050 9051)\<lparr>ip_cache := Some ''1.2.3.4'', ip_cache_time := 1000\<rparr>)
     \<lparr>now = 1030, replies = []\<rparr> 1 0
   = (''1.2.3.4'', (TorInstance 9050 9051)\<lparr>ip_cache := Some ''1.2.3.4'', ip_cache_time := 1000\<rparr>,
      \<lparr>now = 1030, replies = []\<rparr>)
   \<and> fst (get_ip (TorInstance 9050 9051) \<lparr>now = 1030, replies = [(3, RequestRaises), (3, Response 500 None)]\<rparr> 2 0) = ''...''"
  using get_ip_cache_and_sentinel [of "(TorInstance 9050 9051)\<lparr>ip_cache := Some ''1.2.3.4'', ip_cache_time := 1000\<rparr>"
      "\<lparr>now = 1030, replies = []\<rparr>" 1 0 "\<lparr>now = 1030, replies = []\<rparr>" 1 0 9050 9051]
    get_ip_cache_and_sentinel [of "TorInstance 9050 9051"
      "\<lparr>now = 1030, replies = [(3, RequestRaises), (3, Response 500 None)]\<rparr>" 2 0 "\<lparr>now = 1030, replies = []\<rparr>" 1 0 9050 9051]
  by (simp add: cache_truthy_def TorInstance_def)

theorem get_ip_cache_and_sentinel_counterexample:
  "(case get_ip (TorInstance 9050 9051)
       \<lparr>now = 1000, replies =
          [(1, Response 200 (Some (JObject [(''ip'', JString '' '')]))),
           (1, Response 200 (Some (JObject [(''ip'', JString ''1.2.3.4'')])))]\<rparr> 1 0 of
     (v1, inst1, w1) \<Rightarrow>
       ip_cache inst1 = Some v1 \<and> now w1 - ip_cache_time inst1 < cache_ttl inst1
       \<and> fst (get_ip inst1 w1 1 0) \<noteq> v1
       \<and> replies (snd (snd (get_ip inst1 w1 1 0))) \<noteq> replies w1)"
  by (simp add: get_ip_def cache_truthy_def TorInstance_def http_get_def str_strip_def
      str_space1_def str_space2_def str_space3_def bytes_space_def eval_nat_numeral)

section \<open>The backend dialer\<close>

text \<open>
  C4. The dialer is to close the socket on every failure. On a method-negotiation
  reply of one byte, \<open>resp[1]\<close> raises IndexError inside the \<open>try\<close>; the handler of
  the exception returns \<open>None\<close> and the trace holds no \<open>TorClose\<close>. The empty reply,
  the sibling path, does close. A refused connection is not closed either.
\<close>

theorem connect_to_tor_leaks_socket:
  "connect_to_tor
     \<lparr>connect_ok = True, sendall_ok = (\<lambda>k. True), method_reply = RecvBytes [CHR 0x05],
      connect_reply = RecvBytes []\<rparr>
     \<lparr>count = 1, base_socks_port = 9050, base_control_port = 9051,
      instances = [TorInstance 9050 9051], current_index = 0\<rparr>
     ''example.com'' 443
   = (Inr None, [TorConnect 9050, TorSendall [CHR 0x05, CHR 0x01, CHR 0x00], TorRecv 2])
   \<and> connect_to_tor
     \<lparr>connect_ok = True, sendall_ok = (\<lambda>k. True), method_reply = RecvBytes [],
      connect_reply = RecvBytes []\<rparr>
     \<lparr>count = 1, base_socks_port = 9050, base_control_port = 9051,
      instances = [TorInstance 9050 9051], current_index = 0\<rparr>
     ''example.com'' 443
   = (Inr None, [TorConnect 9050, TorSendall [CHR 0x05, CHR 0x01, CHR 0x00], TorRecv 2, TorClose])
   \<and> connect_to_tor
     \<lparr>connect_ok = False, sendall_ok = (\<lambda>k. True), method_reply = RecvBytes [],
      connect_reply = RecvBytes []\<rparr>
     \<lparr>count = 1, base_socks_port = 9050, base_control_port = 9051,
      instances = [TorInstance 9050 9051], current_index = 0\<rparr>
     ''example.com'' 443
   = (Inr None, [TorConnect 9050])"
  by (simp add: connect_to_tor_def get_proxy_port_def py_index_def TorInstance_def tor_dial_def
      reply_refused_def)

section \<open>CONNECT requests\<close>

lemma client_writes_append: "client_writes (xs @ ys) = client_writes xs @ client_writes ys"
  by (induction xs rule: client_writes.induct) simp_all

lemma client_writes_relay: "client_writes (relay_data cl) = []"
  by (cases "pump_to_remote cl"; cases "pump_to_client cl") (simp_all add: relay_data_def)

lemma client_writes_tor_request:
  "client_writes evs = [] \<Longrightarrow> client_writes (snd (tor_request be h pt evs)) = []"
  by (auto simp: tor_request_def client_writes_append
      split: sum.splits recv_result.splits bool.splits)

lemma client_writes_tor_dial: "client_writes (snd (tor_dial be tp h pt)) = []"
  by (auto simp: tor_dial_def Let_def client_writes_tor_request client_writes_append
      split: sum.splits recv_result.splits bool.splits)

lemma client_writes_connect_to_tor: "client_writes (snd (connect_to_tor be p h pt)) = []"
proof (cases "get_proxy_port p")
  case (Inl e)
  then show ?thesis by (simp add: connect_to_tor_def)
next
  case (Inr tp)
  obtain r evs where d: "tor_dial be tp h pt = (r, evs)" by (cases "tor_dial be tp h pt")
  have "client_writes evs = []" using client_writes_tor_dial [of be tp h pt] d by simp
  then show ?thesis
    using Inr d by (cases r) (simp_all add: connect_to_tor_def)
qed

lemma handle_connect_cases:
  "handle_connect lib cl be p w url =
     (case connect_target lib url of
        None \<Rightarrow> returns [] p w
      | Some (host, port) \<Rightarrow>
          (case connect_to_tor be p host port of
             (Inl e, evs) \<Rightarrow> raises e evs p w
           | (Inr (Some s), evs) \<Rightarrow>
               if client_send_ok cl
               then returns (evs @ ClientSendall established # relay_data cl) p w
               else raises OSError (evs @ [ClientSendall established]) p w
           | (Inr None, evs) \<Rightarrow>
               if client_send_ok cl then returns (evs @ [ClientSendall bad_gateway]) p w
               else raises OSError (evs @ [ClientSendall bad_gateway]) p w))"
  by (auto simp: handle_connect_def client_sendall_def returns_def raises_def Let_def
      established_def bad_gateway_def split: option.splits prod.splits sum.splits)

text \<open>
  C5, amended. For a request that is classified as HTTP, whose first line does not
  contain \<open>GET /rotate\<close> and whose method is CONNECT, \<open>handle\<close> lets no exception out
  and ends by closing the client socket, and before that: when the target is missing
  or is not \<open>host:port\<close> for the code (two pieces around one colon, the second an
  integer), nothing is done; when the dial returns a socket, exactly the 200 line is
  written to the client and, unless that write failed, \<open>relay_data\<close> runs; when the
  dial returns its failure value, exactly the 502 line is written; when the dial
  raises, nothing is written.
\<close>

theorem handle_connect_request:
  fixes lib cl be p w b bs raw
  defines "data \<equiv> take 65536 raw"
  defines "first_line \<equiv> decode_ignore lib (hd (split_on CRLF data))"
  defines "parts \<equiv> split_on '' '' first_line"
  assumes peek: "peeked cl = RecvBytes (b # bs)"
    and http: "detect_protocol (of_char b) = ''HTTP''"
    and recv: "received cl = RecvBytes raw"
    and no_rotate: "\<not> contains ''GET /rotate'' first_line"
    and connect: "parts ! 0 = ''CONNECT''"
  shows "raised (handle lib cl be p w) = None
       \<and> (length parts < 2 \<or> connect_target lib (parts ! 1) = None \<longrightarrow>
            events (handle lib cl be p w) = [ClientClose])
       \<and> (\<forall>host port evs.
            2 \<le> length parts \<and> connect_target lib (parts ! 1) = Some (host, port)
            \<and> connect_to_tor be p host port = (Inr (Some TorSocket), evs) \<longrightarrow>
            events (handle lib cl be p w) =
              evs @ ClientSendall established
                # (if client_send_ok cl then relay_data cl else []) @ [ClientClose]
            \<and> client_writes (events (handle lib cl be p w)) = [established])
       \<and> (\<forall>host port evs.
            2 \<le> length parts \<and> connect_target lib (parts ! 1) = Some (host, port)
            \<and> connect_to_tor be p host port = (Inr None, evs) \<longrightarrow>
            events (handle lib cl be p w) = evs @ [ClientSendall bad_gateway, ClientClose]
            \<and> client_writes (events (handle lib cl be p w)) = [bad_gateway])
       \<and> (\<forall>host port e evs.
            2 \<le> length parts \<and> connect_target lib (parts ! 1) = Some (host, port)
            \<and> connect_to_tor be p host port = (Inl e, evs) \<longrightarrow>
            events (handle lib cl be p w) = evs @ [ClientClose]
            \<and> client_writes (events (handle lib cl be p w)) = [])"
proof -
  have body: "handle_try lib cl be p w = handle_http lib cl be p w data"
    using peek http recv by (simp add: handle_try_def Let_def data_def)
  have ev: "events (handle lib cl be p w) = events (handle_http lib cl be p w data) @ [ClientClose]"
    and r: "raised (handle lib cl be p w) = None"
    by (simp_all add: handle_def Let_def body)
  have short: "length parts < 2 \<Longrightarrow> handle_http lib cl be p w data = returns [] p w"
    using no_rotate by (simp add: handle_http_def Let_def first_line_def parts_def)
  have long: "2 \<le> length parts \<Longrightarrow>
      handle_http lib cl be p w data = handle_connect lib cl be p w (parts ! 1)"
    using no_rotate connect by (simp add: handle_http_def Let_def first_line_def parts_def)
  have c1: "length parts < 2 \<or> connect_target lib (parts ! 1) = None \<Longrightarrow>
      events (handle lib cl be p w) = [ClientClose]"
  proof (cases "length parts < 2")
    case True
    then show ?thesis by (simp add: ev short returns_def)
  next
    case False
    assume "length parts < 2 \<or> connect_target lib (parts ! 1) = None"
    with False have "connect_target lib (parts ! 1) = None" and "2 \<le> length parts" by auto
    then show ?thesis by (simp add: ev long handle_connect_cases returns_def)
  qed
  have w: "client_writes evs = []"
    if "connect_to_tor be p host port = (x, evs)" for host port x evs
    using client_writes_connect_to_tor [of be p host port] that by simp
  have c2: "events (handle lib cl be p w) =
              evs @ ClientSendall established
                # (if client_send_ok cl then relay_data cl else []) @ [ClientClose]
            \<and> client_writes (events (handle lib cl be p w)) = [established]"
    if "2 \<le> length parts" "connect_target lib (parts ! 1) = Some (host, port)"
      "connect_to_tor be p host port = (Inr (Some TorSocket), evs)" for host port evs
    using that w [OF that(3)]
    by (simp add: ev long handle_connect_cases returns_def raises_def client_writes_append
        client_writes_relay)
  have c3: "events (handle lib cl be p w) = evs @ [ClientSendall bad_gateway, ClientClose]
            \<and> client_writes (events (handle lib cl be p w)) = [bad_gateway]"
    if "2 \<le> length parts" "connect_target lib (parts ! 1) = Some (host, port)"
      "connect_to_tor be p host port = (Inr None, evs)" for host port evs
    using that w [OF that(3)]
    by (simp add: ev long handle_connect_cases returns_def raises_def client_writes_append)
  have c4: "events (handle lib cl be p w) = evs @ [ClientClose]
            \<and> client_writes (events (handle lib cl be p w)) = []"
    if "2 \<le> length parts" "connect_target lib (parts ! 1) = Some (host, port)"
      "connect_to_tor be p host port = (Inl e, evs)" for host port e evs
    using that w [OF that(3)]
    by (simp add: ev long handle_connect_cases returns_def raises_def client_writes_append)
  show ?thesis using r c1 c2 c3 c4 by blast
qed

theorem handle_connect_request_witness:
  "events (handle ascii_lib (client_sending (''CONNECT a:1 H'' @ CRLF) True) ready_backend
     \<lparr>count = 1, base_socks_port = 9050, base_control_port = 9051,
      instances = [TorInstance 9050 9051], current_index = 0\<rparr>
     \<lparr>now = 0, replies = []\<rparr>)
   = [TorConnect 9050, TorSendall [CHR 0x05, CHR 0x01, CHR 0x00], TorRecv 2,
      TorSendall [CHR 0x05, CHR 0x01, CHR 0x00, CHR 0x03, CHR 0x01, CHR ''a'', CHR 0x00, CHR 0x01],
      TorRecv 10, ClientSendall established, RelayData, TorShutdown, TorClose,
      ClientShutdown, ClientClose, ClientClose]"
  using handle_connect_request [where lib = ascii_lib
     and cl = "client_sending (''CONNECT a:1 H'' @ CRLF) True"
     and b = "CHR ''C''" and bs = "''ONNECT a:1 H'' @ CRLF"
     and raw = "''CONNECT a:1 H'' @ CRLF"
     and be = ready_backend
     and p = "\<lparr>count = 1, base_socks_port = 9050, base_control_port = 9051,
      instances = [TorInstance 9050 9051], current_index = 0\<rparr>"
     and w = "\<lparr>now = 0, replies = []\<rparr>"]
  by (simp add: ascii_lib_def ascii_int_def CRLF_def split_on_def connect_target_def
      connect_to_tor_def get_proxy_port_def py_index_def TorInstance_def tor_dial_def
      reply_refused_def tor_request_def connect_request_def pack_B_def pack_H_def char_of_def
      ready_backend_def client_sending_def detect_protocol_def relay_data_def)

theorem handle_connect_request_counterexample:
  "split_on '' '' (decode_ignore ascii_lib (hd (split_on CRLF (''CONNECT a:1 GET /rotate'' @ CRLF)))) ! 0
     = ''CONNECT''
   \<and> connect_target ascii_lib
        (split_on '' '' (decode_ignore ascii_lib (hd (split_on CRLF (''CONNECT a:1 GET /rotate'' @ CRLF)))) ! 1)
     = Some (''a'', 1)
   \<and> fst (connect_to_tor ready_backend
        \<lparr>count = 2, base_socks_port = 9050, base_control_port = 9051,
         instances = [TorInstance 9050 9051, TorInstance 9052 9053], current_index = 0\<rparr>
        ''a'' 1) = Inr (Some TorSocket)
   \<and> ClientSendall established \<notin> set (events (handle ascii_lib
        (client_sending (''CONNECT a:1 GET /rotate'' @ CRLF) True) ready_backend
        \<lparr>count = 2, base_socks_port = 9050, base_control_port = 9051,
         instances = [TorInstance 9050 9051, TorInstance 9052 9053], current_index = 0\<rparr>
        \<lparr>now = 0, replies = []\<rparr>))
   \<and> current_index (pool_after (handle ascii_lib
        (client_sending (''CONNECT a:1 GET /rotate'' @ CRLF) True) ready_backend
        \<lparr>count = 2, base_socks_port = 9050, base_control_port = 9051,
         instances = [TorInstance 9050 9051, TorInstance 9052 9053], current_index = 0\<rparr>
        \<lparr>now = 0, replies = []\<rparr>)) = 1
   \<and> fst (connect_to_tor ready_backend
        \<lparr>count = 1, base_socks_port = 9050, base_control_port = 9051,
         instances = [TorInstance 9050 9051], current_index = 0\<rparr>
        ''a'' 1) = Inr (Some TorSocket)
   \<and> RelayData \<notin> set (events (handle ascii_lib
        (client_sending (''CONNECT a:1 H'' @ CRLF) False) ready_backend
        \<lparr>count = 1, base_socks_port = 9050, base_control_port = 9051,
         instances = [TorInstance 9050 9051], current_index = 0\<rparr>
        \<lparr>now = 0, replies = []\<rparr>))
   \<and> connect_to_tor ready_backend
        \<lparr>count = 3, base_socks_port = 9050, base_control_port = 9051,
         instances = [TorInstance 9050 9051], current_index = 2\<rparr>
        ''a'' 1 = (Inl IndexError, [])
   \<and> events (handle ascii_lib
        (client_sending (''CONNECT a:1 H'' @ CRLF) True) ready_backend
        \<lparr>count = 3, base_socks_port = 9050, base_control_port = 9051,
         instances = [TorInstance 9050 9051], current_index = 2\<rparr>
        \<lparr>now = 0, replies = []\<rparr>) = [ClientClose]"
  by (simp add: ascii_lib_def ascii_int_def CRLF_def split_on_def connect_target_def
      connect_to_tor_def get_proxy_port_def py_index_def TorInstance_def tor_dial_def
      reply_refused_def tor_request_def connect_request_def pack_B_def pack_H_def char_of_def
      ready_backend_def client_sending_def detect_protocol_def relay_data_def
      handle_def handle_try_def handle_http_def handle_rotate_def rotate_try_def
      handle_connect_def get_current_instance_def
      get_ip_def cache_truthy_def http_get_def switch_to_next_instance_def Let_def
      client_sendall_def returns_def raises_def established_def rotate_response_def)

section \<open>Closing the client socket\<close>

lemma relay_data_close: "ClientClose \<in> set (relay_data cl) \<Longrightarrow> pump_to_client cl = Closed"
  by (cases "pump_to_remote cl"; cases "pump_to_client cl") (simp_all add: relay_data_def)

lemma relay_data_marker: "RelayData \<in> set (relay_data cl)"
  by (simp add: relay_data_def)

lemma tor_request_no_close:
  "ClientClose \<notin> set evs \<Longrightarrow> ClientClose \<notin> set (snd (tor_request be h pt evs))"
  by (auto simp: tor_request_def split: sum.splits recv_result.splits bool.splits)

lemma tor_dial_no_close: "ClientClose \<notin> set (snd (tor_dial be tp h pt))"
  by (auto simp: tor_dial_def Let_def tor_request_no_close
      split: sum.splits recv_result.splits bool.splits)

lemma connect_to_tor_no_close: "ClientClose \<notin> set (snd (connect_to_tor be p h pt))"
proof (cases "get_proxy_port p")
  case (Inl e)
  then show ?thesis by (simp add: connect_to_tor_def)
next
  case (Inr tp)
  obtain r evs where d: "tor_dial be tp h pt = (r, evs)" by (cases "tor_dial be tp h pt")
  have "ClientClose \<notin> set evs" using tor_dial_no_close [of be tp h pt] d by simp
  then show ?thesis
    using Inr d by (cases r) (simp_all add: connect_to_tor_def)
qed

lemma client_sendall_no_close:
  "ClientClose \<notin> set evs \<Longrightarrow> ClientClose \<notin> set (events (client_sendall cl bs evs p w))"
  by (simp add: client_sendall_def returns_def raises_def)

lemma rotate_try_no_close: "ClientClose \<notin> set (events (rotate_try cl p w))"
  by (auto simp: rotate_try_def Let_def raises_def client_sendall_def returns_def
      split: sum.splits option.splits prod.splits)

lemma handle_rotate_no_close: "ClientClose \<notin> set (events (handle_rotate lib cl p w))"
  by (simp add: handle_rotate_def Let_def client_sendall_no_close rotate_try_no_close
      split: option.splits)

lemma handle_connect_close:
  assumes "ClientClose \<in> set (events (handle_connect lib cl be p w url))"
  shows "RelayData \<in> set (events (handle_connect lib cl be p w url)) \<and> pump_to_client cl = Closed"
proof (cases "connect_target lib url")
  case None
  then show ?thesis using assms by (simp add: handle_connect_cases returns_def)
next
  case (Some hp)
  obtain host port where hp: "hp = (host, port)" by (cases hp)
  obtain r evs where c: "connect_to_tor be p host port = (r, evs)"
    by (cases "connect_to_tor be p host port")
  have n: "ClientClose \<notin> set evs" using connect_to_tor_no_close [of be p host port] c by simp
  show ?thesis
    using assms Some hp c n relay_data_close [of cl] relay_data_marker [of cl]
    by (auto simp: handle_connect_cases returns_def raises_def
        split: sum.splits option.splits if_splits)
qed

lemma handle_forward_close:
  assumes "ClientClose \<in> set (events (handle_forward lib cl be p w data url))"
  shows "RelayData \<in> set (events (handle_forward lib cl be p w data url))
       \<and> pump_to_client cl = Closed"
proof -
  obtain host0 port0 where u: "url_host_port lib url = (host0, port0)"
    by (cases "url_host_port lib url")
  define hp where "hp = (if falsy host0 then host_header lib host0 port0 (split_on CRLF data)
                 else Inr (host0, port0))"
  show ?thesis
  proof (cases hp)
    case (Inl e)
    then show ?thesis
      using assms u unfolding hp_def by (simp add: handle_forward_def raises_def)
  next
    case (Inr hp')
    obtain host port where hp': "hp' = (host, port)" by (cases hp')
    show ?thesis
    proof (cases "falsy host")
      case True
      then show ?thesis
        using assms u Inr hp' unfolding hp_def by (simp add: handle_forward_def returns_def)
    next
      case False
      obtain r evs where c: "connect_to_tor be p (the host) port = (r, evs)"
        by (cases "connect_to_tor be p (the host) port")
      have n: "ClientClose \<notin> set evs"
        using connect_to_tor_no_close [of be p "the host" port] c by simp
      show ?thesis
        using assms u Inr hp' False c n relay_data_close [of cl] relay_data_marker [of cl]
        unfolding hp_def
        by (auto simp: handle_forward_def raises_def client_sendall_def returns_def
            split: sum.splits option.splits if_splits)
    qed
  qed
qed

lemma handle_http_close:
  assumes "ClientClose \<in> set (events (handle_http lib cl be p w data))"
  shows "RelayData \<in> set (events (handle_http lib cl be p w data)) \<and> pump_to_client cl = Closed"
  using assms handle_rotate_no_close [of lib cl p w]
    handle_connect_close [of lib cl be p w] handle_forward_close [of lib cl be p w data]
  by (auto simp: handle_http_def Let_def returns_def split: if_splits)

lemma handle_try_close:
  assumes "ClientClose \<in> set (events (handle_try lib cl be p w))"
  shows "RelayData \<in> set (events (handle_try lib cl be p w)) \<and> pump_to_client cl = Closed"
  using assms handle_http_close [of lib cl be p w]
  by (auto simp: handle_try_def Let_def returns_def raises_def
      split: recv_result.splits if_splits)

text \<open>
  C10. \<open>handle\<close> lets no exception out and its last action is to close the client
  socket, whatever the peek, the classification and \<open>handle_http\<close> did. The only
  earlier close of that socket is the one of a relay pump that has ended. On a failed
  or empty peek, on a first byte that is not classified as HTTP (SOCKS4, SOCKS5,
  UNKNOWN) and on a failed read, closing is all it does.
\<close>

theorem handle_closes_client:
  "raised (handle lib cl be p w) = None
   \<and> events (handle lib cl be p w) = events (handle_try lib cl be p w) @ [ClientClose]
   \<and> last (events (handle lib cl be p w)) = ClientClose
   \<and> (ClientClose \<in> set (events (handle_try lib cl be p w)) \<longrightarrow>
        RelayData \<in> set (events (handle_try lib cl be p w)) \<and> pump_to_client cl = Closed)
   \<and> (peeked cl = RecvRaises \<or> peeked cl = RecvBytes []
        \<or> (\<exists>b bs. peeked cl = RecvBytes (b # bs) \<and> detect_protocol (of_char b) \<noteq> ''HTTP'')
        \<or> (\<exists>b bs. peeked cl = RecvBytes (b # bs) \<and> received cl = RecvRaises)
       \<longrightarrow> events (handle lib cl be p w) = [ClientClose])"
proof -
  have a: "events (handle lib cl be p w) = events (handle_try lib cl be p w) @ [ClientClose]"
    and b: "raised (handle lib cl be p w) = None"
    by (simp_all add: handle_def Let_def)
  have c: "peeked cl = RecvRaises \<or> peeked cl = RecvBytes []
        \<or> (\<exists>b bs. peeked cl = RecvBytes (b # bs) \<and> detect_protocol (of_char b) \<noteq> ''HTTP'')
        \<or> (\<exists>b bs. peeked cl = RecvBytes (b # bs) \<and> received cl = RecvRaises)
       \<Longrightarrow> events (handle_try lib cl be p w) = []"
    by (auto simp: handle_try_def Let_def returns_def raises_def)
  show ?thesis using a b c handle_try_close [of lib cl be p w] by auto
qed

theorem handle_closes_client_witness:
  "events (handle ascii_lib (client_sending [CHR 0x05, CHR 0x01, CHR 0x00] True) ready_backend
     (TorPoolManager 1 9050 9051) \<lparr>now = 0, replies = []\<rparr>) = [ClientClose]
   \<and> last (events (handle ascii_lib (client_sending (''CONNECT a:1 H'' @ CRLF) True) ready_backend
     \<lparr>count = 1, base_socks_port = 9050, base_control_port = 9051,
      instances = [TorInstance 9050 9051], current_index = 0\<rparr>
     \<lparr>now = 0, replies = []\<rparr>)) = ClientClose"
  using handle_closes_client [of ascii_lib "client_sending [CHR 0x05, CHR 0x01, CHR 0x00] True"
     ready_backend "TorPoolManager 1 9050 9051" "\<lparr>now = 0, replies = []\<rparr>"]
   handle_closes_client [of ascii_lib "client_sending (''CONNECT a:1 H'' @ CRLF) True"
     ready_backend "\<lparr>count = 1, base_socks_port = 9050, base_control_port = 9051,
      instances = [TorInstance 9050 9051], current_index = 0\<rparr>" "\<lparr>now = 0, replies = []\<rparr>"]
  by (auto simp: detect_protocol_def client_sending_def)

end
